theory Spec2Isabelle
  imports Complex_Main
begin

section \<open>Request input: the ticker field\<close>

text \<open>
  The request pipeline is the function \<^verbatim>\<open>optimize_portfolio(tickers_str, start_date)\<close>
  of \<^verbatim>\<open>app.py\<close>.  Its first statement normalises the free-text field:
  \<^verbatim>\<open>tickers = [ticker.strip().upper() for ticker in tickers_str.split(',')]\<close>.
  A character is a code point below 256.  \<open>isspace\<close> holds the code points of that
  range that Python's \<^verbatim>\<open>str.strip\<close> removes: tab to carriage return, the four
  separators 28 to 31, the space, and the two beyond ASCII, next line (133) and
  no-break space (160).  \<open>upper_char\<close> raises the letters a..z and leaves every other
  character as it is; \<^verbatim>\<open>str.upper\<close> also changes letters beyond ASCII, none of which
  is a comma or is removed by \<^verbatim>\<open>str.strip\<close>.
\<close>

definition isspace :: "char \<Rightarrow> bool" where
  "isspace c =
     (let n = (of_char c :: nat)
      in (9 \<le> n \<and> n \<le> 13) \<or> (28 \<le> n \<and> n \<le> 32) \<or> n = 133 \<or> n = 160)"

definition upper_char :: "char \<Rightarrow> char" where
  "upper_char c = (let n = (of_char c :: nat) in if 97 \<le> n \<and> n \<le> 122 then char_of (n - 32) else c)"

definition upper :: "string \<Rightarrow> string" where
  "upper s = map upper_char s"

definition strip :: "string \<Rightarrow> string" where
  "strip s = rev (dropWhile isspace (rev (dropWhile isspace s)))"

text \<open>\<^verbatim>\<open>str.split(',')\<close>: the fields between the commas, empty fields kept.\<close>

fun split_comma :: "string \<Rightarrow> string list" where
  "split_comma [] = [[]]"
| "split_comma (c # cs) =
     (if c = CHR '','' then [] # split_comma cs
      else (case split_comma cs of
              [] \<Rightarrow> [[c]]
            | f # fs \<Rightarrow> (c # f) # fs))"

definition normalize_tickers :: "string \<Rightarrow> string list" where
  "normalize_tickers tickers_str = map (\<lambda>ticker. upper (strip ticker)) (split_comma tickers_str)"


section \<open>Numbers\<close>

text \<open>
  A numpy \<^verbatim>\<open>float64\<close> is a finite number, read as the real number it denotes, one of
  the two infinities, or \<^verbatim>\<open>nan\<close>.  The operations below give the exact result on finite
  numbers: they neither round nor overflow (rounding to float64 is \<open>float64\<close>, defined
  with the scaling of prices).  Arithmetic
  follows IEEE 754 on these: \<^verbatim>\<open>nan\<close> propagates, \<^verbatim>\<open>inf - inf\<close>, \<^verbatim>\<open>0 * inf\<close>, \<^verbatim>\<open>0 / 0\<close> and
  \<^verbatim>\<open>inf / inf\<close> are \<^verbatim>\<open>nan\<close>, a non-zero number divided by zero is an infinity (numpy warns
  and does not raise), the square root of a negative number is \<^verbatim>\<open>nan\<close>.  Zero has no
  sign here: a zero divisor counts as \<^verbatim>\<open>+0.0\<close>.
\<close>

datatype float = Fin real | PInf | NInf | NaN

fun fneg :: "float \<Rightarrow> float" where
  "fneg (Fin x) = Fin (- x)"
| "fneg PInf = NInf"
| "fneg NInf = PInf"
| "fneg NaN = NaN"

fun fadd :: "float \<Rightarrow> float \<Rightarrow> float" where
  "fadd (Fin x) (Fin y) = Fin (x + y)"
| "fadd NaN b = NaN"
| "fadd a NaN = NaN"
| "fadd PInf NInf = NaN"
| "fadd NInf PInf = NaN"
| "fadd PInf b = PInf"
| "fadd a PInf = PInf"
| "fadd NInf b = NInf"
| "fadd a NInf = NInf"

definition fsub :: "float \<Rightarrow> float \<Rightarrow> float" where
  "fsub a b = fadd a (fneg b)"

text \<open>An infinity of the sign of \<open>x\<close>, for \<open>x\<close> other than zero.\<close>

definition signed_inf :: "real \<Rightarrow> float" where
  "signed_inf x = (if 0 < x then PInf else NInf)"

fun fmul :: "float \<Rightarrow> float \<Rightarrow> float" where
  "fmul (Fin x) (Fin y) = Fin (x * y)"
| "fmul NaN b = NaN"
| "fmul a NaN = NaN"
| "fmul (Fin x) PInf = (if x = 0 then NaN else signed_inf x)"
| "fmul (Fin x) NInf = (if x = 0 then NaN else signed_inf (- x))"
| "fmul PInf (Fin y) = (if y = 0 then NaN else signed_inf y)"
| "fmul NInf (Fin y) = (if y = 0 then NaN else signed_inf (- y))"
| "fmul PInf PInf = PInf"
| "fmul NInf NInf = PInf"
| "fmul PInf NInf = NInf"
| "fmul NInf PInf = NInf"

fun fdiv :: "float \<Rightarrow> float \<Rightarrow> float" where
  "fdiv (Fin x) (Fin y) =
     (if y = 0 then (if x = 0 then NaN else signed_inf x) else Fin (x / y))"
| "fdiv NaN b = NaN"
| "fdiv a NaN = NaN"
| "fdiv (Fin x) PInf = Fin 0"
| "fdiv (Fin x) NInf = Fin 0"
| "fdiv PInf (Fin y) = (if y < 0 then NInf else PInf)"
| "fdiv NInf (Fin y) = (if y < 0 then PInf else NInf)"
| "fdiv PInf PInf = NaN"
| "fdiv PInf NInf = NaN"
| "fdiv NInf PInf = NaN"
| "fdiv NInf NInf = NaN"

fun fsqrt :: "float \<Rightarrow> float" where
  "fsqrt (Fin x) = (if x < 0 then NaN else Fin (sqrt x))"
| "fsqrt PInf = PInf"
| "fsqrt NInf = NaN"
| "fsqrt NaN = NaN"

text \<open>\<^verbatim>\<open>np.sum\<close> of a vector and \<^verbatim>\<open>np.dot\<close> of two vectors, of a matrix and a vector.\<close>

definition np_sum :: "float list \<Rightarrow> float" where
  "np_sum xs = foldr fadd xs (Fin 0)"

definition np_dot :: "float list \<Rightarrow> float list \<Rightarrow> float" where
  "np_dot xs ys = np_sum (map2 fmul xs ys)"

definition np_dot_mv :: "float list list \<Rightarrow> float list \<Rightarrow> float list" where
  "np_dot_mv m v = map (\<lambda>row. np_dot row v) m"

section \<open>Exceptions and the collaborators' data\<close>

datatype py_exception = ValueError string | TypeError string | Exception string

fun str_exc :: "py_exception \<Rightarrow> string" where
  "str_exc (ValueError m) = m"
| "str_exc (TypeError m) = m"
| "str_exc (Exception m) = m"

text \<open>
  The value of \<^verbatim>\<open>yf.download(...)['Close']\<close>: a pandas \<^verbatim>\<open>DataFrame\<close> (column labels and
  the rows of cells, a missing cell being \<^verbatim>\<open>nan\<close>), or a \<^verbatim>\<open>Series\<close>, which is what the
  \<^verbatim>\<open>isinstance(data, pd.DataFrame)\<close> test of the source tells apart.  A frame is
  rectangular: every row has one cell per column.
\<close>

record dataframe =
  columns :: "string list"
  rows :: "float list list"

datatype pd_data = DataFrame dataframe | Series "float list"

definition rectangular :: "dataframe \<Rightarrow> bool" where
  "rectangular df = list_all (\<lambda>r. length r = length (columns df)) (rows df)"

text \<open>\<^verbatim>\<open>data.empty\<close>, \<^verbatim>\<open>data.isnull().all().all()\<close> and \<^verbatim>\<open>data.shape[1]\<close>.\<close>

definition df_empty :: "dataframe \<Rightarrow> bool" where
  "df_empty df = (rows df = [] \<or> columns df = [])"

definition df_all_null :: "dataframe \<Rightarrow> bool" where
  "df_all_null df = list_all (\<lambda>r. list_all (\<lambda>v. v = NaN) r) (rows df)"

definition shape1 :: "dataframe \<Rightarrow> nat" where
  "shape1 df = length (columns df)"

section \<open>Return Model Builder\<close>

text \<open>
  \<^verbatim>\<open>returns = data.pct_change().dropna()\<close>.
  \<^verbatim>\<open>pct_change\<close> computes \<^verbatim>\<open>data / data.shift(1) - 1\<close>; before that, pandas up to 2.x
  forward-fills missing cells (its default \<^verbatim>\<open>fill_method='pad'\<close>), pandas 3 does not.
  The library's choice is the parameter \<open>fill_method\<close>.
\<close>

datatype fill_method = Pad | NoFill

definition pad_row :: "float list \<Rightarrow> float list \<Rightarrow> float list" where
  "pad_row prev r = map2 (\<lambda>l c. if c = NaN then l else c) prev r"

fun pad_rows :: "float list \<Rightarrow> float list list \<Rightarrow> float list list" where
  "pad_rows prev [] = []"
| "pad_rows prev (r # rs) = (let r' = pad_row prev r in r' # pad_rows r' rs)"

definition ffill :: "float list list \<Rightarrow> float list list" where
  "ffill rs = (case rs of [] \<Rightarrow> [] | r # rs' \<Rightarrow> r # pad_rows r rs')"

definition fill :: "fill_method \<Rightarrow> float list list \<Rightarrow> float list list" where
  "fill fm rs = (case fm of Pad \<Rightarrow> ffill rs | NoFill \<Rightarrow> rs)"

definition pct :: "float \<Rightarrow> float \<Rightarrow> float" where
  "pct prev cur = fsub (fdiv cur prev) (Fin 1)"

definition pct_row :: "float list \<Rightarrow> float list \<Rightarrow> float list" where
  "pct_row prev r = map2 pct prev r"

fun pct_rows :: "float list \<Rightarrow> float list list \<Rightarrow> float list list" where
  "pct_rows prev [] = []"
| "pct_rows prev (r # rs) = pct_row prev r # pct_rows r rs"

definition pct_change :: "fill_method \<Rightarrow> float list list \<Rightarrow> float list list" where
  "pct_change fm rs =
     (case fill fm rs of
        [] \<Rightarrow> []
      | r # rs' \<Rightarrow> map (\<lambda>_. NaN) r # pct_rows r rs')"

definition dropna :: "float list list \<Rightarrow> float list list" where
  "dropna rs = filter (\<lambda>r. list_all (\<lambda>v. v \<noteq> NaN) r) rs"

text \<open>
  \<^verbatim>\<open>returns.mean()\<close> and \<^verbatim>\<open>returns.cov()\<close>, column by column.  The mean of no rows is
  \<^verbatim>\<open>0 / 0\<close>; the covariance is the sum of the products of the deviations from the
  column means, divided by the number of rows less one, taken as 0 when there is no
  row.
\<close>

definition column :: "nat \<Rightarrow> float list list \<Rightarrow> float list" where
  "column j rs = map (\<lambda>r. r ! j) rs"

definition col_mean :: "float list \<Rightarrow> float" where
  "col_mean xs = fdiv (np_sum xs) (Fin (real (length xs)))"

definition col_cov :: "float list \<Rightarrow> float list \<Rightarrow> float" where
  "col_cov xs ys =
     fdiv (np_sum (map2 (\<lambda>x y. fmul (fsub x (col_mean xs)) (fsub y (col_mean ys))) xs ys))
          (Fin (real (length xs - 1)))"

definition df_mean :: "nat \<Rightarrow> float list list \<Rightarrow> float list" where
  "df_mean n rs = map (\<lambda>j. col_mean (column j rs)) [0..<n]"

definition df_cov :: "nat \<Rightarrow> float list list \<Rightarrow> float list list" where
  "df_cov n rs = map (\<lambda>j. map (\<lambda>k. col_cov (column j rs) (column k rs)) [0..<n]) [0..<n]"

record return_model =
  meanReturn :: "float list"
  covariance :: "float list list"

definition build_return_model :: "fill_method \<Rightarrow> dataframe \<Rightarrow> return_model" where
  "build_return_model fm data =
     (let returns = dropna (pct_change fm (rows data));
          n = shape1 data
      in \<lparr>meanReturn = map (\<lambda>m. fmul m (Fin 252)) (df_mean n returns),
          covariance = map (map (\<lambda>c. fmul c (Fin 252))) (df_cov n returns)\<rparr>)"


section \<open>Allocation Optimizer\<close>

text \<open>
  The nested function \<^verbatim>\<open>negative_sharpe_ratio\<close> and the call of \<^verbatim>\<open>sco.minimize\<close>.
  The stabiliser \<^verbatim>\<open>1e-9\<close> is the constant \<open>eps\<close>.
\<close>

definition eps :: real where
  "eps = 1 / 10 ^ 9"

definition negative_sharpe_ratio :: "float list \<Rightarrow> float list \<Rightarrow> float list list \<Rightarrow> float \<Rightarrow> float" where
  "negative_sharpe_ratio weights mean_returns cov_matrix risk_free_rate =
     (let p_return = np_dot weights mean_returns;
          p_volatility = fsqrt (np_dot weights (np_dot_mv cov_matrix weights))
      in fdiv (fneg (fsub p_return risk_free_rate)) (fadd p_volatility (Fin eps)))"

text \<open>
  What \<^verbatim>\<open>sco.minimize\<close> receives (objective with its \<^verbatim>\<open>args\<close> bound, initial guess,
  method, bounds, constraints) and the fields of the \<^verbatim>\<open>OptimizeResult\<close> it returns.
\<close>

datatype constraint_type = Eq | Ineq

record constraint =
  ctype :: constraint_type
  cfun :: "float list \<Rightarrow> float"

record problem =
  objective :: "float list \<Rightarrow> float"
  initial_guess :: "float list"
  solver_method :: string
  bounds :: "(real \<times> real) list"
  constraints :: "constraint list"

record solution =
  sol_x :: "float list"
  sol_success :: bool
  sol_message :: string

definition sharpe_problem :: "return_model \<Rightarrow> nat \<Rightarrow> problem" where
  "sharpe_problem model num_assets =
     \<lparr>objective = (\<lambda>weights.
          negative_sharpe_ratio weights (meanReturn model) (covariance model) (Fin 0)),
      initial_guess = replicate num_assets (fdiv (Fin 1) (Fin (real num_assets))),
      solver_method = ''SLSQP'',
      bounds = replicate num_assets (0, 1),
      constraints = [\<lparr>ctype = Eq, cfun = (\<lambda>weights. fsub (np_sum weights) (Fin 1))\<rparr>]\<rparr>"

text \<open>
  Lines 94 to 97: \<^verbatim>\<open>optimal_weights = solution.x\<close>.  The solver is a parameter;
  it returns a solution or raises.  The number of assets is the length of the ticker
  list, which is never 0.
\<close>

definition allocation_optimizer ::
  "(problem \<Rightarrow> py_exception + solution) \<Rightarrow> return_model \<Rightarrow> nat \<Rightarrow> py_exception + float list" where
  "allocation_optimizer solver model num_assets =
     (case solver (sharpe_problem model num_assets) of
        Inl e \<Rightarrow> Inl e
      | Inr sol \<Rightarrow> Inr (sol_x sol))"

section \<open>Random Allocation Sampler\<close>

text \<open>
  \<^verbatim>\<open>np.random.random(num_assets)\<close> takes the next \<open>num_assets\<close> values of the generator's
  sequence \<open>u\<close>; \<open>pos\<close> is the number of values taken so far.  The loop
  \<^verbatim>\<open>for _ in range(num_portfolios)\<close> appends to the two lists.
\<close>

definition num_portfolios :: nat where
  "num_portfolios = 10000"

definition np_random :: "(nat \<Rightarrow> real) \<Rightarrow> nat \<Rightarrow> nat \<Rightarrow> float list" where
  "np_random u pos n = map (\<lambda>i. Fin (u i)) [pos..<pos + n]"

definition normalized :: "float list \<Rightarrow> float list" where
  "normalized weights = map (\<lambda>w. fdiv w (np_sum weights)) weights"

fun sample_loop ::
  "nat \<Rightarrow> (nat \<Rightarrow> real) \<Rightarrow> nat \<Rightarrow> nat \<Rightarrow> return_model \<Rightarrow> float list \<times> float list
     \<Rightarrow> float list \<times> float list" where
  "sample_loop 0 u pos num_assets model acc = acc"
| "sample_loop (Suc k) u pos num_assets model (p_returns, p_volatility) =
     (let weights = normalized (np_random u pos num_assets)
      in sample_loop k u (pos + num_assets) num_assets model
           (p_returns @ [np_dot weights (meanReturn model)],
            p_volatility @ [fsqrt (np_dot weights (np_dot_mv (covariance model) weights))]))"

definition random_sampler :: "(nat \<Rightarrow> real) \<Rightarrow> return_model \<Rightarrow> nat \<Rightarrow> float list \<times> float list" where
  "random_sampler u model num_assets = sample_loop num_portfolios u 0 num_assets model ([], [])"

section \<open>Result Assembler and the request pipeline\<close>

text \<open>
  The collaborators and the library of one request: the market-data call
  \<^verbatim>\<open>yf.download(tickers, start=start_date, auto_adjust=True)['Close']\<close>, the solver, the
  random generator's sequence, the fill of \<^verbatim>\<open>pct_change\<close>, and the two number formats
  \<^verbatim>\<open>.2%\<close> and \<^verbatim>\<open>.2f\<close>.
\<close>

record env =
  download :: "string list \<Rightarrow> string \<Rightarrow> py_exception + pd_data"
  minimize :: "problem \<Rightarrow> py_exception + solution"
  uniforms :: "nat \<Rightarrow> real"
  pct_fill :: fill_method
  fmt_pct :: "float \<Rightarrow> string"
  fmt_f2 :: "float \<Rightarrow> string"

text \<open>
  The three values the function returns: the figure, the table and the text.  The
  figure is the empty placeholder of the handler or the scatter of the sampled cloud
  (risk, return, colour) with the optimal point.
\<close>

datatype figure =
  EmptyFigure
| Scatter "float list" "float list" "float list" float float

record result =
  fig :: figure
  weights_df :: "(string \<times> string) list"
  summary_str :: string

definition empty_ticker_message :: string where
  "empty_ticker_message = ''Ticker list cannot be empty.''"

definition download_message :: string where
  "download_message =
     ''Could not download valid data for all tickers. Please check the company symbols.''"

text \<open>
  A \<^verbatim>\<open>Series\<close> has no \<^verbatim>\<open>cov()\<close> without an argument, and \<^verbatim>\<open>pd.DataFrame\<close> refuses columns
  of different lengths.
\<close>

definition series_cov_message :: string where
  "series_cov_message =
     ''Series.cov() missing 1 required positional argument: '' @ [CHR 0x27] @ ''other'' @ [CHR 0x27]"

definition array_length_message :: string where
  "array_length_message = ''All arrays must be of the same length''"

definition newline :: string where
  "newline = [CHR 0x0A]"

text \<open>
  Lines 79 to 128, for a frame that passed the checks of line 76.  The table is built
  (line 107) after the sampling loop and before the metrics; the matplotlib calls of
  lines 117 to 126 draw what the \<open>Scatter\<close> holds, and here they succeed (that they
  may raise is added by \<open>body_plt\<close> below).
\<close>

definition compute :: "env \<Rightarrow> string list \<Rightarrow> dataframe \<Rightarrow> py_exception + result" where
  "compute e tickers data =
     (let model = build_return_model (pct_fill e) data;
          num_assets = length tickers
      in case allocation_optimizer (minimize e) model num_assets of
           Inl ex \<Rightarrow> Inl ex
         | Inr optimal_weights \<Rightarrow>
             (let (p_returns, p_volatility) = random_sampler (uniforms e) model num_assets
              in if length optimal_weights \<noteq> length tickers
                 then Inl (ValueError array_length_message)
                 else
                   (let table = zip tickers (map (fmt_pct e) optimal_weights);
                        opt_return = np_dot optimal_weights (meanReturn model);
                        opt_volatility =
                          fsqrt (np_dot optimal_weights (np_dot_mv (covariance model) optimal_weights));
                        opt_sharpe = fdiv opt_return (fadd opt_volatility (Fin eps));
                        text =
                          ''Expected Yearly Return: '' @ fmt_pct e opt_return @ newline @
                          ''Expected Yearly Risk: '' @ fmt_pct e opt_volatility @ newline @
                          ''Return/Risk Ratio (Sharpe): '' @ fmt_f2 e opt_sharpe
                    in Inr \<lparr>fig = Scatter p_volatility p_returns
                                   (map2 (\<lambda>r v. fdiv r (fadd v (Fin eps))) p_returns p_volatility)
                                   opt_volatility opt_return,
                            weights_df = table,
                            summary_str = text\<rparr>)))"

text \<open>
  The body of the \<^verbatim>\<open>try\<close>.  Beside its outcome it returns the requests sent to the
  market-data collaborator, in order.
\<close>

definition body :: "env \<Rightarrow> string \<Rightarrow> string \<Rightarrow> (py_exception + result) \<times> (string list \<times> string) list" where
  "body e tickers_str start_date =
     (let tickers = normalize_tickers tickers_str
      in if tickers = [] \<or> tickers_str = []
         then (Inl (ValueError empty_ticker_message), [])
         else
           (let fetched = [(tickers, start_date)]
            in case download e tickers start_date of
                 Inl ex \<Rightarrow> (Inl ex, fetched)
               | Inr (Series xs) \<Rightarrow>
                   (if xs = [] \<or> list_all (\<lambda>v. v = NaN) xs
                    then (Inl (ValueError download_message), fetched)
                    else (Inl (TypeError series_cov_message), fetched))
               | Inr (DataFrame data) \<Rightarrow>
                   (if df_empty data \<or> df_all_null data \<or> shape1 data \<noteq> length tickers
                    then (Inl (ValueError download_message), fetched)
                    else (compute e tickers data, fetched))))"

text \<open>
  The handler: \<^verbatim>\<open>except Exception as e\<close>.  \<open>failure\<close> is what it returns when its own
  two calls, \<^verbatim>\<open>plt.subplots\<close> and \<^verbatim>\<open>pd.DataFrame()\<close>, succeed, and \<open>optimize_portfolio\<close>
  is the function when every matplotlib call succeeds.
\<close>

definition failure :: "py_exception \<Rightarrow> result" where
  "failure ex =
     \<lparr>fig = EmptyFigure, weights_df = [], summary_str = ''An error occurred: '' @ str_exc ex\<rparr>"

definition optimize_portfolio :: "env \<Rightarrow> string \<Rightarrow> string \<Rightarrow> result \<times> (string list \<times> string) list" where
  "optimize_portfolio e tickers_str start_date =
     (case body e tickers_str start_date of
        (Inl ex, fetched) \<Rightarrow> (failure ex, fetched)
      | (Inr r, fetched) \<Rightarrow> (r, fetched))"

text \<open>
  The matplotlib calls can raise as well.  \<open>draw_scatter\<close> stands for lines 117 to 126,
  the last statements of the \<^verbatim>\<open>try\<close> body, which draw the scatter, and
  \<open>draw_placeholder\<close> for lines 132 and 133 of the handler, \<^verbatim>\<open>plt.subplots\<close> and
  \<^verbatim>\<open>pd.DataFrame()\<close>, which no \<^verbatim>\<open>try\<close> encloses: each is \<open>None\<close> when the calls
  succeed and the exception when one of them raises.  In \<open>optimize_portfolio_plt\<close>
  \<open>Inr\<close> holds the three values returned to the caller and \<open>Inl\<close> the exception that
  leaves the function.
\<close>

record pyplot =
  draw_scatter :: "figure \<Rightarrow> py_exception option"
  draw_placeholder :: "py_exception option"

definition body_plt ::
  "pyplot \<Rightarrow> env \<Rightarrow> string \<Rightarrow> string \<Rightarrow> (py_exception + result) \<times> (string list \<times> string) list" where
  "body_plt m e tickers_str start_date =
     (case body e tickers_str start_date of
        (Inl ex, fetched) \<Rightarrow> (Inl ex, fetched)
      | (Inr r, fetched) \<Rightarrow>
          (case draw_scatter m (fig r) of
             Some ex \<Rightarrow> (Inl ex, fetched)
           | None \<Rightarrow> (Inr r, fetched)))"

definition optimize_portfolio_plt ::
  "pyplot \<Rightarrow> env \<Rightarrow> string \<Rightarrow> string \<Rightarrow> (py_exception + result) \<times> (string list \<times> string) list" where
  "optimize_portfolio_plt m e tickers_str start_date =
     (case body_plt m e tickers_str start_date of
        (Inl ex, fetched) \<Rightarrow>
          (case draw_placeholder m of
             Some ex' \<Rightarrow> (Inl ex', fetched)
           | None \<Rightarrow> (Inr (failure ex), fetched))
      | (Inr r, fetched) \<Rightarrow> (Inr r, fetched))"

definition default_start_date :: string where
  "default_start_date = ''2020-01-01''"

section \<open>The formulas of the specification\<close>

text \<open>
  The PerformanceMetrics formulas and the objective of section 4.2 as the specification
  writes them, over real vectors and matrices: \<open>return = w\<cdot>meanReturn\<close>,
  \<open>risk = sqrt (w\<^sup>T \<cdot> covariance \<cdot> w)\<close> and
  \<open>f(w) = -(w\<cdot>meanReturn - r\<^sub>f) / (risk + \<epsilon>)\<close> with \<open>r\<^sub>f = 0\<close> and \<open>\<epsilon> = 1e-9\<close>.
\<close>

definition spec_return :: "real list \<Rightarrow> real list \<Rightarrow> real" where
  "spec_return w m = (\<Sum>i<length w. w ! i * m ! i)"

definition spec_variance :: "real list \<Rightarrow> real list list \<Rightarrow> real" where
  "spec_variance w c = (\<Sum>i<length w. \<Sum>j<length w. w ! i * c ! i ! j * w ! j)"

definition spec_risk :: "real list \<Rightarrow> real list list \<Rightarrow> real" where
  "spec_risk w c = sqrt (spec_variance w c)"

definition spec_objective :: "real list \<Rightarrow> real list \<Rightarrow> real list list \<Rightarrow> real" where
  "spec_objective w m c = - (spec_return w m - 0) / (spec_risk w c + 1 / 10 ^ 9)"

text \<open>
  Section 4.1 in its own words, for a price matrix \<open>P\<close> of \<open>N\<close> columns whose rows are
  counted from 0: the simple return \<open>r\<^sub>t = P\<^sub>t / P\<^sub>t\<^sub>-\<^sub>1 - 1\<close> of every row but the first, the
  rows with a missing value dropped, then \<open>252 * mean(r)\<close> and \<open>252 * cov(r)\<close>, where the
  mean of no rows and the sample covariance of fewer than two rows are undefined.
  The mean and the covariance are the formulas over the real numbers, read off the
  finite cells by \<open>fin_value\<close>.
\<close>

fun fin_value :: "float \<Rightarrow> real" where
  "fin_value (Fin x) = x"
| "fin_value a = 0"

definition spec_simple_return :: "float list list \<Rightarrow> nat \<Rightarrow> nat \<Rightarrow> float" where
  "spec_simple_return P t j = fsub (fdiv (P ! t ! j) (P ! (t - 1) ! j)) (Fin 1)"

definition spec_returns :: "nat \<Rightarrow> float list list \<Rightarrow> float list list" where
  "spec_returns n P =
     filter (\<lambda>r. list_all (\<lambda>v. v \<noteq> NaN) r)
       (map (\<lambda>t. map (\<lambda>j. spec_simple_return P t j) [0..<n]) [1..<length P])"

definition spec_mean :: "float list list \<Rightarrow> nat \<Rightarrow> float" where
  "spec_mean r j =
     (if r = [] then NaN
      else Fin ((\<Sum>t<length r. fin_value (r ! t ! j)) / real (length r)))"

definition spec_cov :: "float list list \<Rightarrow> nat \<Rightarrow> nat \<Rightarrow> float" where
  "spec_cov r j k =
     (if length r < 2 then NaN
      else Fin ((\<Sum>t<length r.
                    (fin_value (r ! t ! j) - (\<Sum>s<length r. fin_value (r ! s ! j)) / real (length r)) *
                    (fin_value (r ! t ! k) - (\<Sum>s<length r. fin_value (r ! s ! k)) / real (length r)))
                 / (real (length r) - 1)))"

definition spec_return_model :: "nat \<Rightarrow> float list list \<Rightarrow> return_model" where
  "spec_return_model n P =
     (let r = spec_returns n P
      in \<lparr>meanReturn = map (\<lambda>j. fmul (Fin 252) (spec_mean r j)) [0..<n],
          covariance = map (\<lambda>j. map (\<lambda>k. fmul (Fin 252) (spec_cov r j k)) [0..<n]) [0..<n]\<rparr>)"

text \<open>
  A quoted price is a finite number other than zero, or missing; a table is quoted when
  all its cells are.  The quotient \<open>P\<^sub>t / P\<^sub>t\<^sub>-\<^sub>1\<close> of the specification is defined on these.
\<close>

definition is_price :: "float \<Rightarrow> bool" where
  "is_price v = (case v of Fin x \<Rightarrow> x \<noteq> 0 | NaN \<Rightarrow> True | PInf \<Rightarrow> False | NInf \<Rightarrow> False)"

definition quoted :: "dataframe \<Rightarrow> bool" where
  "quoted df = list_all (list_all is_price) (rows df)"

section \<open>Notions used in the properties\<close>

text \<open>
  The \<open>k\<close>-th candidate allocation of the sampling loop, counted from 0: the loop has
  taken \<open>k * num_assets\<close> values of the generator before it draws this one.
\<close>

definition candidate :: "(nat \<Rightarrow> real) \<Rightarrow> nat \<Rightarrow> nat \<Rightarrow> float list" where
  "candidate u num_assets k = normalized (np_random u (k * num_assets) num_assets)"

text \<open>
  A solver wrapped so that it reports the convergence flag \<open>b\<close> and the message \<open>m\<close>
  in place of its own.
\<close>

definition set_flag ::
  "bool \<Rightarrow> string \<Rightarrow> (problem \<Rightarrow> py_exception + solution) \<Rightarrow> problem \<Rightarrow> py_exception + solution" where
  "set_flag b m solver p =
     (case solver p of
        Inl ex \<Rightarrow> Inl ex
      | Inr sol \<Rightarrow> Inr (sol\<lparr>sol_success := b, sol_message := m\<rparr>))"

text \<open>
  The float64 nearest to a real number, ties to the even significand: 53 binary digits
  from the exponent of the number on, the exponent not below -1022 (so that the
  subnormal numbers are the multiples of \<open>2 powr -1074\<close>), and an infinity once the
  rounded magnitude reaches \<open>2 ^ 1024\<close>.
\<close>

definition round_even :: "real \<Rightarrow> int" where
  "round_even x =
     (let n = \<lfloor>x\<rfloor>; r = x - of_int n
      in if r < 1 / 2 then n else if 1 / 2 < r then n + 1 else if even n then n else n + 1)"

definition binade :: "real \<Rightarrow> int" where
  "binade x = max \<lfloor>log 2 \<bar>x\<bar>\<rfloor> (- 1022)"

definition ulp :: "real \<Rightarrow> real" where
  "ulp x = 2 powr (of_int (binade x) - 52)"

definition float64 :: "real \<Rightarrow> float" where
  "float64 x =
     (if x = 0 then Fin 0
      else (let y = of_int (round_even (x / ulp x)) * ulp x
            in if 2 ^ 1024 \<le> \<bar>y\<bar> then signed_inf x else Fin y))"









section \<open>Example requests\<close>

text \<open>
  A request environment on which the definitions are run: the market-data call answers
  every request with two closes of one asset, the solver gives back its initial guess
  and reports that it did not converge, the generator always draws one half, pandas
  does not fill.  Two more differ in that the market-data call, or the solver, raises,
  and one in that the market-data call answers with three closes of two assets.
  A ticker field of a space, a comma and a no-break space.
\<close>

definition example_frame :: dataframe where
  "example_frame = \<lparr>columns = [''A''], rows = [[Fin 100], [Fin 110]]\<rparr>"

definition example_solver :: "problem \<Rightarrow> py_exception + solution" where
  "example_solver p =
     Inr \<lparr>sol_x = initial_guess p, sol_success = False, sol_message = ''Iteration limit reached''\<rparr>"

definition half_draws :: "nat \<Rightarrow> real" where
  "half_draws i = 1 / 2"

definition example_env :: env where
  "example_env =
     \<lparr>download = (\<lambda>tickers start. Inr (DataFrame example_frame)),
      minimize = example_solver,
      uniforms = half_draws,
      pct_fill = NoFill,
      fmt_pct = (\<lambda>v. ''pct''),
      fmt_f2 = (\<lambda>v. ''f2'')\<rparr>"

definition failing_download_env :: env where
  "failing_download_env =
     example_env\<lparr>download := (\<lambda>tickers start. Inl (Exception ''No data found''))\<rparr>"

definition blank_input :: string where
  "blank_input = [CHR 0x20, CHR '','', CHR 0xA0]"

definition two_asset_env :: env where
  "two_asset_env =
     example_env\<lparr>download := (\<lambda>tickers start.
        Inr (DataFrame \<lparr>columns = [''A'', ''B''],
                         rows = [[Fin 1, Fin 2], [Fin 2, Fin 2], [Fin 3, Fin 1]]\<rparr>))\<rparr>"

definition failing_solver_env :: env where
  "failing_solver_env =
     example_env\<lparr>minimize := (\<lambda>p. Inl (ValueError ''Objective function must return a scalar''))\<rparr>"

text \<open>
  Three states of matplotlib: every call succeeds; no call succeeds, as without a
  display; the scatter is refused and the placeholder is drawn.
\<close>

definition drawing :: pyplot where
  "drawing = \<lparr>draw_scatter = (\<lambda>f. None), draw_placeholder = None\<rparr>"

definition no_display :: pyplot where
  "no_display =
     \<lparr>draw_scatter = (\<lambda>f. Some (Exception ''no display name and no $DISPLAY environment variable'')),
      draw_placeholder = Some (Exception ''no display name and no $DISPLAY environment variable'')\<rparr>"

definition scatter_fails :: pyplot where
  "scatter_fails =
     \<lparr>draw_scatter = (\<lambda>f. Some (ValueError ''Invalid RGBA argument'')), draw_placeholder = None\<rparr>"

text \<open>
  A generator that draws zeros only, a return model of two assets, a table of three
  closes of two assets, and a table of one asset with a gap.
\<close>

definition zero_draws :: "nat \<Rightarrow> real" where
  "zero_draws i = 0"

definition example_model :: return_model where
  "example_model = \<lparr>meanReturn = [Fin 3, Fin 5], covariance = [[Fin 4, Fin 0], [Fin 0, Fin 9]]\<rparr>"

definition example_prices :: dataframe where
  "example_prices =
     \<lparr>columns = [''A'', ''B''],
      rows = [[Fin 1, Fin 2], [Fin 2, Fin 2], [Fin 3, Fin 1]]\<rparr>"

definition gap_prices :: dataframe where
  "gap_prices = \<lparr>columns = [''A''], rows = [[Fin 1], [NaN], [Fin 2]]\<rparr>"


definition large_factor :: real where
  "large_factor = 2 ^ 1020"


section \<open>Input normalisation\<close>

lemma split_comma_not_Nil: "split_comma s \<noteq> []"
  by (induction s) (auto split: list.splits)

lemma length_split_comma: "length (split_comma s) = Suc (count_list s (CHR '',''))"
  by (induction s) (auto split: list.splits simp: split_comma_not_Nil)

lemma split_comma_fields: "f \<in> set (split_comma s) \<Longrightarrow> set f \<subseteq> set s - {CHR '',''}"
proof (induction s arbitrary: f)
  case Nil
  then show ?case by simp
next
  case (Cons c cs)
  show ?case
  proof (cases "c = CHR '',''")
    case True
    with Cons show ?thesis by auto
  next
    case False
    obtain g gs where g: "split_comma cs = g # gs"
      using split_comma_not_Nil by (cases "split_comma cs") auto
    with False Cons.prems have "f = c # g \<or> f \<in> set gs" by auto
    then show ?thesis
    proof
      assume "f = c # g"
      moreover have "set g \<subseteq> set cs - {CHR '',''}" using Cons.IH g by simp
      ultimately show ?thesis using False by auto
    next
      assume "f \<in> set gs"
      then have "set f \<subseteq> set cs - {CHR '',''}" using Cons.IH g by simp
      then show ?thesis by auto
    qed
  qed
qed

lemma strip_blank:
  assumes "\<forall>c \<in> set f. isspace c"
  shows "strip f = []"
proof -
  have d: "dropWhile isspace f = []"
    using assms by (induction f) auto
  show ?thesis unfolding strip_def d by simp
qed


lemma normalize_not_Nil: "normalize_tickers s \<noteq> []"
  by (simp add: normalize_tickers_def split_comma_not_Nil)

lemma normalize_blank:
  assumes "\<forall>c \<in> set s. c = CHR '','' \<or> isspace c"
  shows "normalize_tickers s = replicate (Suc (count_list s (CHR '',''))) []"
proof -
  have "\<forall>f \<in> set (split_comma s). upper (strip f) = []"
  proof
    fix f assume "f \<in> set (split_comma s)"
    then have "set f \<subseteq> set s - {CHR '',''}" by (rule split_comma_fields)
    with assms have "\<forall>c \<in> set f. isspace c" by auto
    then show "upper (strip f) = []" by (simp add: strip_blank upper_def)
  qed
  then have "map (\<lambda>t. upper (strip t)) (split_comma s) = map (\<lambda>_. []) (split_comma s)"
    by (intro map_cong) auto
  then show ?thesis
    by (simp add: normalize_tickers_def map_replicate_const length_split_comma)
qed

text \<open>The market-data collaborator is asked once, unless the field is the empty string.\<close>

lemma fetched_body:
  "snd (body e s d) = (if s = [] then [] else [(normalize_tickers s, d)])"
  by (auto simp: body_def Let_def normalize_not_Nil split: sum.splits pd_data.splits)

lemma fetched_optimize:
  "snd (optimize_portfolio e s d) = (if s = [] then [] else [(normalize_tickers s, d)])"
  using fetched_body[of e s d]
  by (auto simp: optimize_portfolio_def split: prod.splits sum.splits)


text \<open>
  What a request returns is what the market-data collaborator answers to the request
  for the normalised tickers: its exception, the download message for unusable data,
  or the computation on its frame.
\<close>

lemma body_by_download:
  assumes "s \<noteq> []"
  shows "fst (body e s d) =
           (case download e (normalize_tickers s) d of
              Inl ex \<Rightarrow> Inl ex
            | Inr (Series xs) \<Rightarrow>
                if xs = [] \<or> list_all (\<lambda>v. v = NaN) xs then Inl (ValueError download_message)
                else Inl (TypeError series_cov_message)
            | Inr (DataFrame data) \<Rightarrow>
                if df_empty data \<or> df_all_null data \<or> shape1 data \<noteq> length (normalize_tickers s)
                then Inl (ValueError download_message)
                else compute e (normalize_tickers s) data)"
  using assms
  by (simp add: body_def Let_def normalize_not_Nil split: sum.splits pd_data.splits)

lemma optimize_by_body:
  "fst (optimize_portfolio e s d) =
     (case fst (body e s d) of Inl ex \<Rightarrow> failure ex | Inr r \<Rightarrow> r)"
  by (simp add: optimize_portfolio_def split: prod.splits sum.splits)

text \<open>
  C10.  Splitting on commas never yields the empty list, so the input check rejects a
  request before any fetch exactly when the field is the empty string.  A non-empty
  field made of commas and whitespace only is normalised to blank ticker symbols, one
  more than it has commas, and the market-data collaborator is asked for them: the
  request fails with the collaborator's exception when it raises, with the download
  message when its frame is empty, all missing or of another number of columns, and
  otherwise goes on to the computation with the blank tickers and that frame.
\<close>

theorem blank_input_is_fetched:
  assumes "s \<noteq> []" and "\<forall>c \<in> set s. c = CHR '','' \<or> isspace c"
  shows "(\<forall>t. split_comma t \<noteq> []) \<and>
         (\<forall>t. (snd (optimize_portfolio e t d) = []) = (t = [])) \<and>
         normalize_tickers s = replicate (Suc (count_list s (CHR '',''))) [] \<and>
         snd (optimize_portfolio e s d) = [(replicate (Suc (count_list s (CHR '',''))) [], d)] \<and>
         (\<forall>ex. download e (replicate (Suc (count_list s (CHR '',''))) []) d = Inl ex \<longrightarrow>
            fst (optimize_portfolio e s d) = failure ex) \<and>
         (\<forall>data. download e (replicate (Suc (count_list s (CHR '',''))) []) d = Inr (DataFrame data) \<and>
            (df_empty data \<or> df_all_null data \<or> shape1 data \<noteq> Suc (count_list s (CHR '','')))
            \<longrightarrow> fst (optimize_portfolio e s d) = failure (ValueError download_message)) \<and>
         (\<forall>data. download e (replicate (Suc (count_list s (CHR '',''))) []) d = Inr (DataFrame data) \<and>
            \<not> df_empty data \<and> \<not> df_all_null data \<and> shape1 data = Suc (count_list s (CHR '',''))
            \<longrightarrow> fst (body e s d) =
                  compute e (replicate (Suc (count_list s (CHR '',''))) []) data)"
proof -
  let ?blanks = "replicate (Suc (count_list s (CHR '',''))) ([] :: string)"
  have n: "normalize_tickers s = ?blanks" using assms(2) by (rule normalize_blank)
  have b: "fst (body e s d) =
           (case download e ?blanks d of
              Inl ex \<Rightarrow> Inl ex
            | Inr (Series xs) \<Rightarrow>
                if xs = [] \<or> list_all (\<lambda>v. v = NaN) xs then Inl (ValueError download_message)
                else Inl (TypeError series_cov_message)
            | Inr (DataFrame data) \<Rightarrow>
                if df_empty data \<or> df_all_null data \<or> shape1 data \<noteq> length ?blanks
                then Inl (ValueError download_message)
                else compute e ?blanks data)"
    using body_by_download [OF assms(1), of e d] unfolding n .
  have 1: "\<forall>t. split_comma t \<noteq> []" by (simp add: split_comma_not_Nil)
  have 2: "\<forall>t. (snd (optimize_portfolio e t d) = []) = (t = [])"
    by (simp add: fetched_optimize)
  have 4: "snd (optimize_portfolio e s d) = [(?blanks, d)]"
    using assms(1) by (simp add: fetched_optimize n)
  have 5: "\<forall>ex. download e ?blanks d = Inl ex \<longrightarrow> fst (optimize_portfolio e s d) = failure ex"
    by (simp add: optimize_by_body b)
  have 6: "\<forall>data. download e ?blanks d = Inr (DataFrame data) \<and>
            (df_empty data \<or> df_all_null data \<or> shape1 data \<noteq> Suc (count_list s (CHR '','')))
            \<longrightarrow> fst (optimize_portfolio e s d) = failure (ValueError download_message)"
    by (auto simp: optimize_by_body b)
  have 7: "\<forall>data. download e ?blanks d = Inr (DataFrame data) \<and>
            \<not> df_empty data \<and> \<not> df_all_null data \<and> shape1 data = Suc (count_list s (CHR '',''))
            \<longrightarrow> fst (body e s d) = compute e ?blanks data"
    by (simp add: b)
  from 1 2 n 4 5 6 7 show ?thesis by blast
qed

theorem blank_input_is_fetched_witness:
  "normalize_tickers blank_input = [[], []] \<and>
   snd (optimize_portfolio example_env blank_input default_start_date) =
     [([[], []], default_start_date)] \<and>
   fst (optimize_portfolio failing_download_env blank_input default_start_date) =
     \<lparr>fig = EmptyFigure, weights_df = [], summary_str = ''An error occurred: No data found''\<rparr> \<and>
   fst (optimize_portfolio example_env blank_input default_start_date) =
     \<lparr>fig = EmptyFigure, weights_df = [],
      summary_str = ''An error occurred: Could not download valid data for all tickers. Please check the company symbols.''\<rparr> \<and>
   fst (body two_asset_env blank_input default_start_date) =
     compute two_asset_env [[], []]
       \<lparr>columns = [''A'', ''B''], rows = [[Fin 1, Fin 2], [Fin 2, Fin 2], [Fin 3, Fin 1]]\<rparr>"
proof -
  have h1: "blank_input \<noteq> []" by (simp add: blank_input_def)
  have h2: "\<forall>c \<in> set blank_input. c = CHR '','' \<or> isspace c"
    by (simp add: blank_input_def isspace_def)
  have c: "replicate 2 ([] :: string) = [[], []]"
    by (simp add: numeral_2_eq_2)
  have k: "Suc (count_list blank_input (CHR '','')) = 2"
    by (simp add: blank_input_def)
  note T1 = blank_input_is_fetched [OF h1 h2, of example_env default_start_date, unfolded k c]
  note T2 = blank_input_is_fetched [OF h1 h2, of failing_download_env default_start_date, unfolded k c]
  note T3 = blank_input_is_fetched [OF h1 h2, of two_asset_env default_start_date, unfolded k c]
  note w1 = T1 [THEN conjunct2, THEN conjunct2, THEN conjunct1]
  note w2 = T1 [THEN conjunct2, THEN conjunct2, THEN conjunct2, THEN conjunct1]
  have d2: "download failing_download_env [[], []] default_start_date = Inl (Exception ''No data found'')"
    by (simp add: failing_download_env_def)
  have "fst (optimize_portfolio failing_download_env blank_input default_start_date) =
      failure (Exception ''No data found'')"
    by (rule T2 [THEN conjunct2, THEN conjunct2, THEN conjunct2, THEN conjunct2, THEN conjunct1,
          THEN spec, THEN mp, OF d2])
  then have w3: "fst (optimize_portfolio failing_download_env blank_input default_start_date) =
     \<lparr>fig = EmptyFigure, weights_df = [], summary_str = ''An error occurred: No data found''\<rparr>"
    by (simp add: failure_def)
  have d1: "download example_env [[], []] default_start_date = Inr (DataFrame example_frame) \<and>
      (df_empty example_frame \<or> df_all_null example_frame \<or> shape1 example_frame \<noteq> 2)"
    by (simp add: example_env_def example_frame_def shape1_def)
  have "fst (optimize_portfolio example_env blank_input default_start_date) =
      failure (ValueError download_message)"
    by (rule T1 [THEN conjunct2, THEN conjunct2, THEN conjunct2, THEN conjunct2, THEN conjunct2,
          THEN conjunct1, THEN spec, THEN mp, OF d1])
  then have w4: "fst (optimize_portfolio example_env blank_input default_start_date) =
     \<lparr>fig = EmptyFigure, weights_df = [],
      summary_str = ''An error occurred: Could not download valid data for all tickers. Please check the company symbols.''\<rparr>"
    by (simp add: failure_def download_message_def)
  let ?f = "\<lparr>columns = [''A'', ''B''], rows = [[Fin 1, Fin 2], [Fin 2, Fin 2], [Fin 3, Fin 1]]\<rparr>"
  have d3: "download two_asset_env [[], []] default_start_date = Inr (DataFrame ?f) \<and>
      \<not> df_empty ?f \<and> \<not> df_all_null ?f \<and> shape1 ?f = 2"
    by (simp add: two_asset_env_def df_empty_def df_all_null_def shape1_def)
  have w5: "fst (body two_asset_env blank_input default_start_date) =
      compute two_asset_env [[], []] ?f"
    by (rule T3 [THEN conjunct2, THEN conjunct2, THEN conjunct2, THEN conjunct2, THEN conjunct2,
          THEN conjunct2, THEN spec, THEN mp, OF d3])
  show ?thesis
    by (intro conjI) (rule w1, rule w2, rule w3, rule w4, rule w5)
qed

section \<open>The shape of the pipeline\<close>

text \<open>After the checks of line 76 a request fails only where the solver raises or its
  vector has the wrong length; otherwise the table lists the tickers with the solver's
  weights.\<close>

lemma compute_raises:
  assumes "minimize e (sharpe_problem (build_return_model (pct_fill e) data) (length tickers)) = Inl ex"
  shows "compute e tickers data = Inl ex"
  using assms by (simp add: compute_def allocation_optimizer_def Let_def)

lemma compute_returns:
  assumes "minimize e (sharpe_problem (build_return_model (pct_fill e) data) (length tickers)) = Inr sol"
    and "length (sol_x sol) = length tickers"
  shows "\<exists>r. compute e tickers data = Inr r \<and>
             weights_df r = zip tickers (map (fmt_pct e) (sol_x sol)) \<and>
             fig r \<noteq> EmptyFigure"
  using assms by (simp add: compute_def allocation_optimizer_def Let_def split: prod.splits)

lemma compute_Inr_table:
  assumes "compute e tickers data = Inr r"
  shows "map fst (weights_df r) = tickers \<and> fig r \<noteq> EmptyFigure"
  using assms
  by (auto simp: compute_def allocation_optimizer_def Let_def split: prod.splits sum.splits if_splits)

lemma body_Inr:
  assumes "body e s d = (Inr r, f)"
  shows "\<exists>data. download e (normalize_tickers s) d = Inr (DataFrame data) \<and>
           compute e (normalize_tickers s) data = Inr r"
  using assms
  by (auto simp: body_def Let_def split: if_splits sum.splits pd_data.splits)

text \<open>The example request for the ticker A.\<close>

lemma example_tickers: "normalize_tickers ''A'' = [''A'']"
  by code_simp

lemma example_guess:
  "example_solver (sharpe_problem model 1) =
     Inr \<lparr>sol_x = [Fin 1], sol_success = False, sol_message = ''Iteration limit reached''\<rparr>"
  by (simp add: example_solver_def sharpe_problem_def)

lemma example_body:
  "body example_env ''A'' d = (compute example_env [''A''] example_frame, [([''A''], d)])"
  by (simp add: body_def example_tickers Let_def)
    (simp add: example_env_def example_frame_def df_empty_def df_all_null_def shape1_def)

lemma example_compute:
  "\<exists>r. compute example_env [''A''] example_frame = Inr r \<and>
       weights_df r = [(''A'', ''pct'')] \<and> fig r \<noteq> EmptyFigure"
proof -
  have m: "minimize example_env
             (sharpe_problem (build_return_model (pct_fill example_env) example_frame) (length [''A''])) =
           Inr \<lparr>sol_x = [Fin 1], sol_success = False, sol_message = ''Iteration limit reached''\<rparr>"
    using example_guess by (simp add: example_env_def)
  from compute_returns [OF m] show ?thesis by (simp add: example_env_def)
qed

text \<open>The request with the matplotlib calls: when they all succeed it is
  \<open>optimize_portfolio\<close>.\<close>

lemma plt_when_drawing_succeeds:
  assumes "\<forall>f. draw_scatter m f = None" and "draw_placeholder m = None"
  shows "optimize_portfolio_plt m e s d =
           (Inr (fst (optimize_portfolio e s d)), snd (optimize_portfolio e s d))"
  using assms
  by (simp add: optimize_portfolio_plt_def body_plt_def optimize_portfolio_def
      split: prod.splits sum.splits)

lemma body_plt_Inr:
  assumes "body_plt m e s d = (Inr r, f)"
  shows "body e s d = (Inr r, f)"
  using assms by (simp add: body_plt_def split: prod.splits sum.splits option.splits)

lemma example_body_plt:
  "\<exists>r. body example_env ''A'' d = (Inr r, [([''A''], d)]) \<and> fig r \<noteq> EmptyFigure"
  using example_compute by (auto simp: example_body)

text \<open>
  C4, as the claim states it, fails: no \<^verbatim>\<open>try\<close> encloses the handler's own call of
  \<^verbatim>\<open>plt.subplots\<close>.  Where matplotlib has no display, line 118 raises for the request
  of the ticker A, the handler is entered, line 132 raises again, and that exception
  leaves \<open>optimize_portfolio\<close>.
\<close>

theorem handler_raises_counterexample:
  "optimize_portfolio_plt no_display example_env ''A'' default_start_date =
     (Inl (Exception ''no display name and no $DISPLAY environment variable''),
      [([''A''], default_start_date)])"
proof -
  obtain r where "body example_env ''A'' default_start_date = (Inr r, [([''A''], default_start_date)])"
    using example_body_plt by blast
  then show ?thesis
    by (simp add: optimize_portfolio_plt_def body_plt_def no_display_def)
qed

text \<open>
  C4, amended.  Whatever the body of the \<^verbatim>\<open>try\<close> raises, and provided the handler's own
  calls succeed, the request returns the failure result: the empty placeholder figure,
  the empty table and the one-line text made from the exception, with the requests
  sent so far; where the handler's calls raise, it is their exception that leaves the
  function.  A request whose body returns hands back that result, whose table is not
  empty and whose figure is not the placeholder, so a failure never carries numbers.
  An exception of the market-data collaborator, of the solver and of the drawing of
  the scatter are among the errors of the body.  An exception leaves the function
  only if the body has raised and the handler's calls raise, and it is theirs.
\<close>

theorem errors_surface_as_failed:
  "(\<forall>ex f. body_plt m e s d = (Inl ex, f) \<and> draw_placeholder m = None \<longrightarrow>
      optimize_portfolio_plt m e s d =
        (Inr \<lparr>fig = EmptyFigure, weights_df = [],
              summary_str = ''An error occurred: '' @ str_exc ex\<rparr>, f)) \<and>
   (\<forall>ex ex' f. body_plt m e s d = (Inl ex, f) \<and> draw_placeholder m = Some ex' \<longrightarrow>
      optimize_portfolio_plt m e s d = (Inl ex', f)) \<and>
   (\<forall>r f. body_plt m e s d = (Inr r, f) \<longrightarrow>
      optimize_portfolio_plt m e s d = (Inr r, f) \<and> weights_df r \<noteq> [] \<and> fig r \<noteq> EmptyFigure) \<and>
   (\<forall>ex. s \<noteq> [] \<and> download e (normalize_tickers s) d = Inl ex \<longrightarrow>
      fst (body_plt m e s d) = Inl ex) \<and>
   (\<forall>ex data. s \<noteq> [] \<and> download e (normalize_tickers s) d = Inr (DataFrame data) \<and>
      \<not> df_empty data \<and> \<not> df_all_null data \<and> shape1 data = length (normalize_tickers s) \<and>
      minimize e (sharpe_problem (build_return_model (pct_fill e) data)
                    (length (normalize_tickers s))) = Inl ex \<longrightarrow>
      fst (body_plt m e s d) = Inl ex) \<and>
   (\<forall>ex r f. body e s d = (Inr r, f) \<and> draw_scatter m (fig r) = Some ex \<longrightarrow>
      fst (body_plt m e s d) = Inl ex) \<and>
   (\<forall>ex'. fst (optimize_portfolio_plt m e s d) = Inl ex' \<longrightarrow>
      draw_placeholder m = Some ex' \<and> (\<exists>ex. fst (body_plt m e s d) = Inl ex))"
proof (intro conjI allI impI)
  fix ex f assume "body_plt m e s d = (Inl ex, f) \<and> draw_placeholder m = None"
  then show "optimize_portfolio_plt m e s d =
        (Inr \<lparr>fig = EmptyFigure, weights_df = [],
              summary_str = ''An error occurred: '' @ str_exc ex\<rparr>, f)"
    by (simp add: optimize_portfolio_plt_def failure_def)
next
  fix ex ex' f assume "body_plt m e s d = (Inl ex, f) \<and> draw_placeholder m = Some ex'"
  then show "optimize_portfolio_plt m e s d = (Inl ex', f)"
    by (simp add: optimize_portfolio_plt_def)
next
  fix r f assume b: "body_plt m e s d = (Inr r, f)"
  then show "optimize_portfolio_plt m e s d = (Inr r, f)"
    by (simp add: optimize_portfolio_plt_def)
  from b have "body e s d = (Inr r, f)" by (rule body_plt_Inr)
  then obtain data where "compute e (normalize_tickers s) data = Inr r"
    using body_Inr by blast
  then have t: "map fst (weights_df r) = normalize_tickers s \<and> fig r \<noteq> EmptyFigure"
    by (rule compute_Inr_table)
  then show "fig r \<noteq> EmptyFigure" by simp
  from t have "map fst (weights_df r) \<noteq> []" by (simp add: normalize_not_Nil)
  then show "weights_df r \<noteq> []" by auto
next
  fix ex assume "s \<noteq> [] \<and> download e (normalize_tickers s) d = Inl ex"
  then show "fst (body_plt m e s d) = Inl ex"
    by (simp add: body_plt_def body_def Let_def normalize_not_Nil)
next
  fix ex data
  assume a: "s \<noteq> [] \<and> download e (normalize_tickers s) d = Inr (DataFrame data) \<and>
      \<not> df_empty data \<and> \<not> df_all_null data \<and> shape1 data = length (normalize_tickers s) \<and>
      minimize e (sharpe_problem (build_return_model (pct_fill e) data)
                    (length (normalize_tickers s))) = Inl ex"
  then have "compute e (normalize_tickers s) data = Inl ex"
    by (intro compute_raises) simp
  with a show "fst (body_plt m e s d) = Inl ex"
    by (simp add: body_plt_def body_def Let_def normalize_not_Nil)
next
  fix ex r f assume "body e s d = (Inr r, f) \<and> draw_scatter m (fig r) = Some ex"
  then show "fst (body_plt m e s d) = Inl ex"
    by (simp add: body_plt_def)
next
  fix ex' assume "fst (optimize_portfolio_plt m e s d) = Inl ex'"
  then have k: "draw_placeholder m = Some ex' \<and> (\<exists>ex. fst (body_plt m e s d) = Inl ex)"
    by (auto simp: optimize_portfolio_plt_def split: prod.splits sum.splits option.splits)
  from k show "draw_placeholder m = Some ex'" by simp
  from k show "\<exists>ex. fst (body_plt m e s d) = Inl ex" by simp
qed

theorem errors_surface_as_failed_witness:
  "optimize_portfolio_plt drawing example_env [] default_start_date =
     (Inr \<lparr>fig = EmptyFigure, weights_df = [],
           summary_str = ''An error occurred: Ticker list cannot be empty.''\<rparr>, []) \<and>
   optimize_portfolio_plt no_display example_env [] default_start_date =
     (Inl (Exception ''no display name and no $DISPLAY environment variable''), []) \<and>
   (\<exists>r. optimize_portfolio_plt drawing example_env ''A'' default_start_date =
          (Inr r, [([''A''], default_start_date)]) \<and>
        weights_df r \<noteq> [] \<and> fig r \<noteq> EmptyFigure) \<and>
   fst (body_plt drawing failing_download_env ''A'' default_start_date) =
     Inl (Exception ''No data found'') \<and>
   fst (body_plt drawing failing_solver_env ''A'' default_start_date) =
     Inl (ValueError ''Objective function must return a scalar'') \<and>
   optimize_portfolio_plt scatter_fails example_env ''A'' default_start_date =
     (Inr \<lparr>fig = EmptyFigure, weights_df = [],
           summary_str = ''An error occurred: Invalid RGBA argument''\<rparr>,
      [([''A''], default_start_date)]) \<and>
   draw_placeholder no_display =
     Some (Exception ''no display name and no $DISPLAY environment variable'')"
proof -
  note T = errors_surface_as_failed
  have b1: "\<And>m. body_plt m example_env [] default_start_date =
              (Inl (ValueError empty_ticker_message), [])"
    by (simp add: body_plt_def body_def)
  have p0: "draw_placeholder drawing = None" by (simp add: drawing_def)
  have p1: "draw_placeholder no_display =
              Some (Exception ''no display name and no $DISPLAY environment variable'')"
    by (simp add: no_display_def)
  have p2: "draw_placeholder scatter_fails = None" by (simp add: scatter_fails_def)
  obtain r where r: "body example_env ''A'' default_start_date = (Inr r, [([''A''], default_start_date)])"
    using example_body_plt by blast
  have b2: "body_plt drawing example_env ''A'' default_start_date =
              (Inr r, [([''A''], default_start_date)])"
    using r by (simp add: body_plt_def drawing_def)
  have d6: "draw_scatter scatter_fails (fig r) = Some (ValueError ''Invalid RGBA argument'')"
    by (simp add: scatter_fails_def)
  have w1: "optimize_portfolio_plt drawing example_env [] default_start_date =
     (Inr \<lparr>fig = EmptyFigure, weights_df = [],
           summary_str = ''An error occurred: Ticker list cannot be empty.''\<rparr>, [])"
    using T [of drawing example_env "[]" default_start_date, THEN conjunct1, THEN spec, THEN spec,
        THEN mp, OF conjI [OF b1 p0]]
    by (simp add: empty_ticker_message_def)
  have w2: "optimize_portfolio_plt no_display example_env [] default_start_date =
     (Inl (Exception ''no display name and no $DISPLAY environment variable''), [])"
    using T [of no_display example_env "[]" default_start_date, THEN conjunct2, THEN conjunct1,
        THEN spec, THEN spec, THEN spec, THEN mp, OF conjI [OF b1 p1]] .
  have w3: "\<exists>r. optimize_portfolio_plt drawing example_env ''A'' default_start_date =
          (Inr r, [([''A''], default_start_date)]) \<and>
        weights_df r \<noteq> [] \<and> fig r \<noteq> EmptyFigure"
    using T [of drawing example_env "''A''" default_start_date, THEN conjunct2, THEN conjunct2,
        THEN conjunct1, THEN spec, THEN spec, THEN mp, OF b2] by (rule exI)
  have b4: "''A'' \<noteq> [] \<and>
            download failing_download_env (normalize_tickers ''A'') default_start_date =
              Inl (Exception ''No data found'')"
    by (simp add: failing_download_env_def)
  have w4: "fst (body_plt drawing failing_download_env ''A'' default_start_date) =
     Inl (Exception ''No data found'')"
    using T [of drawing failing_download_env "''A''" default_start_date, THEN conjunct2,
        THEN conjunct2, THEN conjunct2, THEN conjunct1, THEN spec, THEN mp, OF b4] .
  have b5: "''A'' \<noteq> [] \<and>
      download failing_solver_env (normalize_tickers ''A'') default_start_date =
        Inr (DataFrame example_frame) \<and>
      \<not> df_empty example_frame \<and> \<not> df_all_null example_frame \<and>
      shape1 example_frame = length (normalize_tickers ''A'') \<and>
      minimize failing_solver_env
        (sharpe_problem (build_return_model (pct_fill failing_solver_env) example_frame)
           (length (normalize_tickers ''A''))) =
        Inl (ValueError ''Objective function must return a scalar'')"
    by (simp add: failing_solver_env_def example_env_def example_tickers example_frame_def
        df_empty_def df_all_null_def shape1_def)
  have w5: "fst (body_plt drawing failing_solver_env ''A'' default_start_date) =
     Inl (ValueError ''Objective function must return a scalar'')"
    using T [of drawing failing_solver_env "''A''" default_start_date, THEN conjunct2,
        THEN conjunct2, THEN conjunct2, THEN conjunct2, THEN conjunct1, THEN spec, THEN spec,
        THEN mp, OF b5] .
  have b6: "fst (body_plt scatter_fails example_env ''A'' default_start_date) =
              Inl (ValueError ''Invalid RGBA argument'')"
    using T [of scatter_fails example_env "''A''" default_start_date, THEN conjunct2,
        THEN conjunct2, THEN conjunct2, THEN conjunct2, THEN conjunct2, THEN conjunct1,
        THEN spec, THEN spec, THEN spec, THEN mp, OF conjI [OF r d6]] .
  have l6: "snd (body_plt scatter_fails example_env ''A'' default_start_date) =
              [([''A''], default_start_date)]"
    using r by (simp add: body_plt_def split: option.splits)
  have b6': "body_plt scatter_fails example_env ''A'' default_start_date =
               (Inl (ValueError ''Invalid RGBA argument''), [([''A''], default_start_date)])"
    using b6 l6 by (simp add: prod_eq_iff)
  have w6: "optimize_portfolio_plt scatter_fails example_env ''A'' default_start_date =
     (Inr \<lparr>fig = EmptyFigure, weights_df = [],
           summary_str = ''An error occurred: Invalid RGBA argument''\<rparr>,
      [([''A''], default_start_date)])"
    using T [of scatter_fails example_env "''A''" default_start_date, THEN conjunct1, THEN spec,
        THEN spec, THEN mp, OF conjI [OF b6' p2]]
    by simp
  have w7: "draw_placeholder no_display =
     Some (Exception ''no display name and no $DISPLAY environment variable'')"
    using T [of no_display example_env "[]" default_start_date, THEN conjunct2, THEN conjunct2,
        THEN conjunct2, THEN conjunct2, THEN conjunct2, THEN conjunct2, THEN spec, THEN mp,
        THEN conjunct1] w2
    by simp
  show ?thesis
    by (intro conjI) (rule w1, rule w2, rule w3, rule w4, rule w5, rule w6, rule w7)
qed


section \<open>The convergence flag\<close>

lemma optimizer_ignores_flag:
  "allocation_optimizer (set_flag b m solver) model n = allocation_optimizer solver model n"
  by (simp add: allocation_optimizer_def set_flag_def split: sum.splits)

lemma compute_ignores_flag:
  "compute (e\<lparr>minimize := set_flag b m (minimize e)\<rparr>) tickers data = compute e tickers data"
  by (simp add: compute_def optimizer_ignores_flag Let_def split: sum.splits prod.splits)

lemma body_ignores_flag:
  "body (e\<lparr>minimize := set_flag b m (minimize e)\<rparr>) s d = body e s d"
  by (simp add: body_def compute_ignores_flag Let_def split: sum.splits pd_data.splits)

text \<open>
  C3, as the claim states it, fails: the example solver reports that it did not
  converge, and the optimizer returns its vector and the request its table of weights.
\<close>

theorem nonconvergence_counterexample:
  "example_solver (sharpe_problem (build_return_model NoFill example_frame) 1) =
     Inr \<lparr>sol_x = [Fin 1], sol_success = False, sol_message = ''Iteration limit reached''\<rparr> \<and>
   allocation_optimizer example_solver (build_return_model NoFill example_frame) 1 = Inr [Fin 1] \<and>
   weights_df (fst (optimize_portfolio example_env ''A'' default_start_date)) = [(''A'', ''pct'')]"
proof -
  obtain r where r: "compute example_env [''A''] example_frame = Inr r"
      "weights_df r = [(''A'', ''pct'')]"
    using example_compute by blast
  then have "weights_df (fst (optimize_portfolio example_env ''A'' default_start_date)) =
      [(''A'', ''pct'')]"
    by (simp add: optimize_portfolio_def example_body)
  then show ?thesis
    by (simp add: example_guess allocation_optimizer_def del: One_nat_def)
qed

text \<open>
  C3, amended.  The optimizer returns the vector of whatever solution the solver
  returns and fails only where the solver raises; neither it nor the request reads the
  convergence flag or the solver's message: replacing them changes no result.
\<close>

theorem convergence_flag_is_ignored:
  "allocation_optimizer solver model n =
     (case solver (sharpe_problem model n) of Inl ex \<Rightarrow> Inl ex | Inr sol \<Rightarrow> Inr (sol_x sol)) \<and>
   allocation_optimizer (set_flag b m solver) model n = allocation_optimizer solver model n \<and>
   optimize_portfolio (e\<lparr>minimize := set_flag b m (minimize e)\<rparr>) s d = optimize_portfolio e s d"
  by (simp add: optimizer_ignores_flag optimize_portfolio_def body_ignores_flag)
    (simp add: allocation_optimizer_def)

section \<open>The asset universe\<close>



















section \<open>Vectors of finite numbers\<close>

lemma np_sum_Fin: "np_sum (map Fin xs) = Fin (sum_list xs)"
  by (induction xs) (simp_all add: np_sum_def)

lemma map2_fmul_Fin:
  "map2 fmul (map Fin xs) (map Fin ys) = map Fin (map2 (*) xs ys)"
  by (induction xs arbitrary: ys) (auto simp: split: list.splits; case_tac ys; simp add:)+

lemma np_dot_Fin: "np_dot (map Fin xs) (map Fin ys) = Fin (sum_list (map2 (*) xs ys))"
  unfolding np_dot_def map2_fmul_Fin by (rule np_sum_Fin)

lemma sum_list_map2_nth:
  assumes "length xs = length ys"
  shows "sum_list (map2 f xs ys) = (\<Sum>i<length xs. f (xs ! i) (ys ! i))"
proof -
  have "sum_list (map2 f xs ys) = (\<Sum>i = 0..<length (map2 f xs ys). map2 f xs ys ! i)"
    by (rule sum_list_sum_nth)
  also have "\<dots> = (\<Sum>i = 0..<length xs. f (xs ! i) (ys ! i))"
    using assms by (intro sum.cong) auto
  finally show ?thesis by (simp add: lessThan_atLeast0)
qed

lemma np_dot_mv_Fin:
  "np_dot_mv (map (map Fin) c) (map Fin w) = map Fin (map (\<lambda>row. sum_list (map2 (*) row w)) c)"
  by (induction c) (simp_all add: np_dot_mv_def np_dot_Fin)

lemma np_dot_spec_return:
  assumes "length m = length w"
  shows "np_dot (map Fin w) (map Fin m) = Fin (spec_return w m)"
  using assms by (simp add: np_dot_Fin spec_return_def sum_list_map2_nth)

lemma quad_form_spec_variance:
  assumes "length c = length w" and "list_all (\<lambda>row. length row = length w) c"
  shows "np_dot (map Fin w) (np_dot_mv (map (map Fin) c) (map Fin w)) = Fin (spec_variance w c)"
proof -
  let ?n = "length w"
  have rows: "\<And>i. i < ?n \<Longrightarrow> length (c ! i) = ?n"
    using assms by (simp add: list_all_length)
  have "sum_list (map2 (*) w (map (\<lambda>row. sum_list (map2 (*) row w)) c)) =
        (\<Sum>i<?n. w ! i * sum_list (map2 (*) (c ! i) w))"
    using assms(1) by (simp add: sum_list_map2_nth)
  also have "\<dots> = (\<Sum>i<?n. w ! i * (\<Sum>j<?n. c ! i ! j * w ! j))"
    by (intro sum.cong refl) (simp add: rows sum_list_map2_nth)
  also have "\<dots> = (\<Sum>i<?n. \<Sum>j<?n. w ! i * c ! i ! j * w ! j)"
    by (simp add: sum_distrib_left mult.assoc)
  finally show ?thesis
    unfolding np_dot_mv_Fin np_dot_Fin spec_variance_def by simp
qed

lemma negative_sharpe_spec:
  assumes "length m = length w" "length c = length w"
    "list_all (\<lambda>row. length row = length w) c" "0 \<le> spec_variance w c"
  shows "negative_sharpe_ratio (map Fin w) (map Fin m) (map (map Fin) c) (Fin 0) =
           Fin (spec_objective w m c)"
proof -
  have "0 \<le> spec_risk w c" using assms(4) by (simp add: spec_risk_def)
  then have "spec_risk w c + eps \<noteq> 0" by (simp add: eps_def add_nonneg_pos less_imp_neq[symmetric])
  then show ?thesis
    using assms
    by (simp add: negative_sharpe_ratio_def np_dot_spec_return quad_form_spec_variance fsub_def spec_objective_def spec_risk_def eps_def)
qed

text \<open>
  C1.  The problem handed to the solver starts from the uniform guess \<open>1/N\<close>, bounds
  every weight by 0 and 1 and has the single equality constraint \<open>sum(w) - 1\<close>; on a
  model of finite numbers whose dimensions are \<open>N\<close>, and a weight vector of non-negative
  variance, its objective is the function \<open>f\<close> of the specification with \<open>r\<^sub>f = 0\<close> and
  \<open>\<epsilon> = 1e-9\<close>.  The optimizer returns the vector of the solver's solution as it is, and
  the request's table shows that vector.
\<close>

theorem optimizer_minimizes_negative_sharpe:
  "(0 < n \<longrightarrow> initial_guess (sharpe_problem model n) = replicate n (Fin (1 / real n))) \<and>
   bounds (sharpe_problem model n) = replicate n (0, 1) \<and>
   map ctype (constraints (sharpe_problem model n)) = [Eq] \<and>
   (\<forall>w. map (\<lambda>k. cfun k (map Fin w)) (constraints (sharpe_problem model n)) =
          [Fin (sum_list w - 1)]) \<and>
   (\<forall>w m c. meanReturn model = map Fin m \<and> covariance model = map (map Fin) c \<and>
        length w = n \<and> length m = n \<and> length c = n \<and>
        list_all (\<lambda>row. length row = n) c \<and> 0 \<le> spec_variance w c \<longrightarrow>
        objective (sharpe_problem model n) (map Fin w) = Fin (spec_objective w m c)) \<and>
   allocation_optimizer solver model n =
     (case solver (sharpe_problem model n) of Inl ex \<Rightarrow> Inl ex | Inr sol \<Rightarrow> Inr (sol_x sol)) \<and>
   (\<forall>sol. minimize e (sharpe_problem (build_return_model (pct_fill e) data) (length tickers)) = Inr sol \<and>
        length (sol_x sol) = length tickers \<longrightarrow>
        (\<exists>r. compute e tickers data = Inr r \<and>
             weights_df r = zip tickers (map (fmt_pct e) (sol_x sol))))"
proof (intro conjI allI impI)
  assume "0 < n"
  then show "initial_guess (sharpe_problem model n) = replicate n (Fin (1 / real n))"
    by (simp add: sharpe_problem_def)
next
  show "bounds (sharpe_problem model n) = replicate n (0, 1)"
    by (simp add: sharpe_problem_def)
  show "map ctype (constraints (sharpe_problem model n)) = [Eq]"
    by (simp add: sharpe_problem_def)
  show "allocation_optimizer solver model n =
     (case solver (sharpe_problem model n) of Inl ex \<Rightarrow> Inl ex | Inr sol \<Rightarrow> Inr (sol_x sol))"
    by (simp add: allocation_optimizer_def)
next
  fix w :: "real list"
  show "map (\<lambda>k. cfun k (map Fin w)) (constraints (sharpe_problem model n)) =
          [Fin (sum_list w - 1)]"
    by (simp add: sharpe_problem_def np_sum_Fin fsub_def)
next
  fix w m c
  assume a: "meanReturn model = map Fin m \<and> covariance model = map (map Fin) c \<and>
        length w = n \<and> length m = n \<and> length c = n \<and>
        list_all (\<lambda>row. length row = n) c \<and> 0 \<le> spec_variance w c"
  then have "negative_sharpe_ratio (map Fin w) (map Fin m) (map (map Fin) c) (Fin 0) =
           Fin (spec_objective w m c)"
    by (intro negative_sharpe_spec) simp_all
  with a show "objective (sharpe_problem model n) (map Fin w) = Fin (spec_objective w m c)"
    by (simp add: sharpe_problem_def)
next
  fix sol
  assume "minimize e (sharpe_problem (build_return_model (pct_fill e) data) (length tickers)) = Inr sol \<and>
        length (sol_x sol) = length tickers"
  then show "\<exists>r. compute e tickers data = Inr r \<and>
             weights_df r = zip tickers (map (fmt_pct e) (sol_x sol))"
    by (simp add: compute_def allocation_optimizer_def Let_def split: prod.splits)
qed

theorem optimizer_minimizes_negative_sharpe_witness:
  "initial_guess (sharpe_problem example_model 2) = [Fin (1 / 2), Fin (1 / 2)] \<and>
   objective (sharpe_problem example_model 2) [Fin 1, Fin 0] = Fin (- 3 / (2 + 1 / 10 ^ 9)) \<and>
   (\<exists>r. compute example_env [''A''] example_frame = Inr r \<and> weights_df r = [(''A'', ''pct'')])"
proof -
  have v: "spec_variance [1, 0] [[4, 0], [0, 9]] = 4"
    by (simp add: spec_variance_def lessThan_Suc numeral_2_eq_2)
  have h: "meanReturn example_model = map Fin [3, 5] \<and>
        covariance example_model = map (map Fin) [[4, 0], [0, 9]] \<and>
        length [1, 0 :: real] = 2 \<and> length [3, 5 :: real] = 2 \<and> length [[4, 0], [0, 9 :: real]] = 2 \<and>
        list_all (\<lambda>row. length row = 2) [[4, 0], [0, 9 :: real]] \<and>
        0 \<le> spec_variance [1, 0] [[4, 0], [0, 9]]"
    by (simp add: example_model_def v)
  have o: "spec_objective [1, 0] [3, 5] [[4, 0], [0, 9]] = - 3 / (2 + 1 / 10 ^ 9)"
    by (simp add: spec_objective_def spec_risk_def v spec_return_def lessThan_Suc numeral_2_eq_2)
  have m: "minimize example_env
             (sharpe_problem (build_return_model (pct_fill example_env) example_frame) (length [''A''])) =
           Inr \<lparr>sol_x = [Fin 1], sol_success = False, sol_message = ''Iteration limit reached''\<rparr> \<and>
           length (sol_x \<lparr>sol_x = [Fin 1], sol_success = False, sol_message = ''Iteration limit reached''\<rparr>) = length [''A'']"
    by (simp add: example_env_def example_solver_def sharpe_problem_def)
  have hm: "map Fin [1, 0 :: real] = [Fin 1, Fin 0]" by simp
  have "objective (sharpe_problem example_model 2) (map Fin [1, 0]) =
          Fin (spec_objective [1, 0] [3, 5] [[4, 0], [0, 9]])"
    using optimizer_minimizes_negative_sharpe [of 2 example_model undefined example_env example_frame "[''A'']"] h
    by blast
  then have w1: "objective (sharpe_problem example_model 2) [Fin 1, Fin 0] = Fin (- 3 / (2 + 1 / 10 ^ 9))"
    unfolding o hm .
  have "\<exists>r. compute example_env [''A''] example_frame = Inr r \<and>
          weights_df r = zip [''A''] (map (fmt_pct example_env)
            (sol_x \<lparr>sol_x = [Fin 1], sol_success = False, sol_message = ''Iteration limit reached''\<rparr>))"
    using optimizer_minimizes_negative_sharpe [of 2 example_model undefined example_env example_frame "[''A'']"] m
    by blast
  then have w2: "\<exists>r. compute example_env [''A''] example_frame = Inr r \<and> weights_df r = [(''A'', ''pct'')]"
    by (simp add: example_env_def)
  have h0: "(0::nat) < 2" by simp
  have "initial_guess (sharpe_problem example_model 2) = replicate 2 (Fin (1 / real 2))"
    using optimizer_minimizes_negative_sharpe [of 2 example_model undefined example_env example_frame "[''A'']"] h0
    by blast
  then have w0: "initial_guess (sharpe_problem example_model 2) = [Fin (1 / 2), Fin (1 / 2)]"
    by (simp add: numeral_2_eq_2)
  from w0 w1 w2 show ?thesis by blast
qed

section \<open>The sampled cloud\<close>

lemma sample_loop_unfold:
  "sample_loop k u pos n model (rs, vs) =
     (rs @ map (\<lambda>i. np_dot (normalized (np_random u (pos + i * n) n)) (meanReturn model)) [0..<k],
      vs @ map (\<lambda>i. fsqrt (np_dot (normalized (np_random u (pos + i * n) n))
                 (np_dot_mv (covariance model) (normalized (np_random u (pos + i * n) n))))) [0..<k])"
proof (induction k arbitrary: pos rs vs)
  case 0
  show ?case by simp
next
  case (Suc k)
  show ?case
    by (simp only: sample_loop.simps Let_def Suc.IH map_upt_Suc)
       (simp add: add.assoc)
qed

lemma random_sampler_unfold:
  "random_sampler u model n =
     (map (\<lambda>k. np_dot (candidate u n k) (meanReturn model)) [0..<num_portfolios],
      map (\<lambda>k. fsqrt (np_dot (candidate u n k) (np_dot_mv (covariance model) (candidate u n k))))
        [0..<num_portfolios])"
  by (simp add: random_sampler_def sample_loop_unfold candidate_def)

lemma np_random_Fin: "np_random u pos n = map Fin (map u [pos..<pos + n])"
  by (simp add: np_random_def)

lemma normalized_Fin:
  assumes "sum_list xs \<noteq> 0"
  shows "normalized (map Fin xs) = map Fin (map (\<lambda>x. x / sum_list xs) xs)"
  using assms by (simp add: normalized_def np_sum_Fin)

lemma member_le_sum_list_real:
  fixes xs :: "real list"
  assumes "\<forall>y \<in> set xs. 0 \<le> y" and "x \<in> set xs"
  shows "x \<le> sum_list xs"
  using assms
proof (induction xs)
  case Nil
  then show ?case by simp
next
  case (Cons a xs)
  have nn: "0 \<le> sum_list xs" using Cons.prems(1) by (simp add: sum_list_nonneg)
  show ?case
  proof (cases "x = a")
    case True
    with nn show ?thesis by simp
  next
    case False
    with Cons have "x \<le> sum_list xs" by simp
    moreover have "0 \<le> a" using Cons.prems(1) by simp
    ultimately show ?thesis by simp
  qed
qed

lemma sum_list_pos_real:
  fixes xs :: "real list"
  assumes "\<forall>y \<in> set xs. 0 \<le> y" and "\<exists>y \<in> set xs. y \<noteq> 0"
  shows "0 < sum_list xs"
proof -
  obtain y where y: "y \<in> set xs" "y \<noteq> 0" using assms(2) by blast
  with assms(1) have "0 < y" by force
  moreover have "y \<le> sum_list xs" using assms(1) y(1) by (rule member_le_sum_list_real)
  ultimately show ?thesis by simp
qed

lemma sum_list_divide:
  fixes xs :: "real list"
  shows "sum_list (map (\<lambda>x. x / c) xs) = sum_list xs / c"
  by (induction xs) (simp_all add: add_divide_distrib)

lemma candidate_sums_to_one:
  assumes range: "\<forall>i. 0 \<le> u i \<and> u i < 1" and nz: "\<exists>i<n. u (k * n + i) \<noteq> 0"
  defines "draws \<equiv> map u [k * n..<k * n + n]"
  shows "candidate u n k = map Fin (map (\<lambda>x. x / sum_list draws) draws) \<and>
         np_sum (candidate u n k) = Fin 1 \<and>
         (\<forall>x \<in> set (map (\<lambda>x. x / sum_list draws) draws). 0 \<le> x \<and> x \<le> 1)"
proof -
  have nn: "\<forall>y \<in> set draws. 0 \<le> y" using range by (auto simp: draws_def)
  from nz obtain i where i: "i < n" "u (k * n + i) \<noteq> 0" by blast
  then have "u (k * n + i) \<in> set draws" by (auto simp: draws_def)
  with i have "\<exists>y \<in> set draws. y \<noteq> 0" by blast
  with nn have pos: "0 < sum_list draws" by (rule sum_list_pos_real)
  then have c: "candidate u n k = map Fin (map (\<lambda>x. x / sum_list draws) draws)"
    by (simp add: candidate_def np_random_Fin draws_def[symmetric] normalized_Fin)
  have s: "np_sum (candidate u n k) = Fin 1"
    using pos unfolding c np_sum_Fin sum_list_divide by simp
  have "\<forall>x \<in> set draws. 0 \<le> x / sum_list draws \<and> x / sum_list draws \<le> 1"
  proof
    fix x assume x: "x \<in> set draws"
    then have "x \<le> sum_list draws" using nn member_le_sum_list_real by blast
    moreover have "0 \<le> x" using nn x by blast
    ultimately show "0 \<le> x / sum_list draws \<and> x / sum_list draws \<le> 1"
      using pos by simp
  qed
  then have b: "\<forall>x \<in> set (map (\<lambda>x. x / sum_list draws) draws). 0 \<le> x \<and> x \<le> 1"
    by auto
  from c s b show ?thesis by blast
qed


lemma length_candidate: "length (candidate u n k) = n"
  by (simp add: candidate_def normalized_def np_random_def)

lemma draws_by_index:
  "map u [k * n..<k * n + n] = map (\<lambda>i. u (k * n + i)) [0..<n]"
  by (rule nth_equalityI) simp_all

lemma sum_draws_by_index:
  "sum_list (map u [k * n..<k * n + n]) = (\<Sum>j<n. u (k * n + j))"
  unfolding draws_by_index by (simp add: interv_sum_list_conv_sum_set_nat lessThan_atLeast0)

text \<open>
  C5, as the claim states it, fails: zero is a value of the half-open interval, and
  when every value drawn for a candidate is zero the division by their sum is
  \<^verbatim>\<open>0.0 / 0.0\<close>, every weight is \<^verbatim>\<open>nan\<close> and the weights do not sum to 1.
\<close>

theorem zero_draws_counterexample:
  "0 \<le> zero_draws 0 \<and> zero_draws 0 < 1 \<and> candidate zero_draws 1 0 = [NaN] \<and>
   np_sum (candidate zero_draws 1 0) \<noteq> Fin 1"
  by (simp add: candidate_def np_random_def normalized_def zero_draws_def np_sum_def)

text \<open>
  C5, amended.  The sampler returns 10000 returns and 10000 risks; entry \<open>k\<close> is
  computed from the \<open>k\<close>-th candidate, \<open>N\<close> consecutive values of the generator each
  divided by their sum, as \<open>w\<cdot>meanReturn\<close> and \<open>sqrt (w\<^sup>T\<cdot>covariance\<cdot>w)\<close>.  When the
  generator's values lie in \<open>[0,1)\<close> and the \<open>N\<close> values of a candidate are not all zero,
  its weights are finite, lie between 0 and 1 and sum to 1.
\<close>

theorem sampler_candidates:
  "length (fst (random_sampler u model n)) = 10000 \<and>
   length (snd (random_sampler u model n)) = 10000 \<and>
   (\<forall>k<10000.
      fst (random_sampler u model n) ! k = np_dot (candidate u n k) (meanReturn model) \<and>
      snd (random_sampler u model n) ! k =
        fsqrt (np_dot (candidate u n k) (np_dot_mv (covariance model) (candidate u n k)))) \<and>
   (\<forall>k. length (candidate u n k) = n) \<and>
   (\<forall>k. (\<forall>i. 0 \<le> u i \<and> u i < 1) \<and> (\<exists>i<n. u (k * n + i) \<noteq> 0) \<longrightarrow>
      (\<exists>w. candidate u n k = map Fin w \<and>
           w = map (\<lambda>i. u (k * n + i) / (\<Sum>j<n. u (k * n + j))) [0..<n] \<and>
           sum_list w = 1 \<and> (\<forall>x \<in> set w. 0 \<le> x \<and> x \<le> 1))) \<and>
   (\<forall>k w m c. candidate u n k = map Fin w \<and> meanReturn model = map Fin m \<and>
        covariance model = map (map Fin) c \<and> length m = n \<and> length c = n \<and>
        list_all (\<lambda>row. length row = n) c \<and> 0 \<le> spec_variance w c \<longrightarrow>
        np_dot (candidate u n k) (meanReturn model) = Fin (spec_return w m) \<and>
        fsqrt (np_dot (candidate u n k) (np_dot_mv (covariance model) (candidate u n k))) =
          Fin (spec_risk w c))"
proof (intro conjI allI impI)
  show "length (fst (random_sampler u model n)) = 10000"
    by (simp add: random_sampler_unfold num_portfolios_def)
  show "length (snd (random_sampler u model n)) = 10000"
    by (simp add: random_sampler_unfold num_portfolios_def)
next
  fix k :: nat assume "k < 10000"
  then have k: "k < num_portfolios" by (simp add: num_portfolios_def)
  from k show "fst (random_sampler u model n) ! k = np_dot (candidate u n k) (meanReturn model)"
    by (simp add: random_sampler_unfold)
  from k show "snd (random_sampler u model n) ! k =
        fsqrt (np_dot (candidate u n k) (np_dot_mv (covariance model) (candidate u n k)))"
    by (simp add: random_sampler_unfold)
next
  fix k show "length (candidate u n k) = n" by (rule length_candidate)
next
  fix k
  assume a: "(\<forall>i. 0 \<le> u i \<and> u i < 1) \<and> (\<exists>i<n. u (k * n + i) \<noteq> 0)"
  let ?draws = "map u [k * n..<k * n + n]"
  let ?w = "map (\<lambda>x. x / sum_list ?draws) ?draws"
  from a have c: "candidate u n k = map Fin ?w \<and> np_sum (candidate u n k) = Fin 1 \<and>
         (\<forall>x \<in> set ?w. 0 \<le> x \<and> x \<le> 1)"
    by (intro candidate_sums_to_one) simp_all
  then have "np_sum (map Fin ?w) = Fin 1" by metis
  then have s: "sum_list ?w = 1" by (simp only: np_sum_Fin float.inject)
  have e: "?w = map (\<lambda>i. u (k * n + i) / (\<Sum>j<n. u (k * n + j))) [0..<n]"
    unfolding sum_draws_by_index by (simp only: draws_by_index map_map comp_def)
  from c s e
  show "\<exists>w. candidate u n k = map Fin w \<and>
           w = map (\<lambda>i. u (k * n + i) / (\<Sum>j<n. u (k * n + j))) [0..<n] \<and>
           sum_list w = 1 \<and> (\<forall>x \<in> set w. 0 \<le> x \<and> x \<le> 1)"
    by (intro exI[of _ ?w]) blast
next
  fix k w m c
  assume a: "candidate u n k = map Fin w \<and> meanReturn model = map Fin m \<and>
        covariance model = map (map Fin) c \<and> length m = n \<and> length c = n \<and>
        list_all (\<lambda>row. length row = n) c \<and> 0 \<le> spec_variance w c"
  then have "length (map Fin w) = n" using length_candidate[of u n k] by simp
  then have lw: "length w = n" by simp
  from a lw show "np_dot (candidate u n k) (meanReturn model) = Fin (spec_return w m)"
    by (simp add: np_dot_spec_return)
  from a lw show "fsqrt (np_dot (candidate u n k) (np_dot_mv (covariance model) (candidate u n k))) =
          Fin (spec_risk w c)"
    by (simp add: quad_form_spec_variance spec_risk_def)
qed

theorem sampler_candidates_witness:
  "candidate half_draws 2 0 = [Fin (1 / 2), Fin (1 / 2)] \<and>
   sum_list [1 / 2, 1 / 2 :: real] = 1 \<and>
   fst (random_sampler half_draws example_model 2) ! 0 = Fin 4 \<and>
   snd (random_sampler half_draws example_model 2) ! 0 = Fin (sqrt (13 / 4))"
proof -
  note T = sampler_candidates [of half_draws example_model 2]
  have h1: "(0::nat) < 10000" by simp
  have h2: "(\<forall>i. 0 \<le> half_draws i \<and> half_draws i < 1) \<and> (\<exists>i<2. half_draws (0 * 2 + i) \<noteq> 0)"
    by (simp add: half_draws_def) (rule exI[of _ 0], simp)
  from T h2 obtain w where w: "candidate half_draws 2 0 = map Fin w"
      "w = map (\<lambda>i. half_draws (0 * 2 + i) / (\<Sum>j<2. half_draws (0 * 2 + j))) [0..<2]"
      "sum_list w = 1"
    by blast
  have two: "[0..<2] = [0, Suc 0]" by (simp add: numeral_2_eq_2)
  from w(2) have wv: "w = [1 / 2, 1 / 2]"
    by (simp add: half_draws_def two lessThan_Suc numeral_2_eq_2)
  have v: "spec_variance [1 / 2, 1 / 2] [[4, 0], [0, 9]] = 13 / 4"
    by (simp add: spec_variance_def lessThan_Suc numeral_2_eq_2)
  have r: "spec_return [1 / 2, 1 / 2] [3, 5] = 4"
    by (simp add: spec_return_def lessThan_Suc numeral_2_eq_2)
  have h3: "candidate half_draws 2 0 = map Fin [1 / 2, 1 / 2] \<and>
        meanReturn example_model = map Fin [3, 5] \<and>
        covariance example_model = map (map Fin) [[4, 0], [0, 9]] \<and>
        length [3, 5 :: real] = 2 \<and> length [[4, 0], [0, 9 :: real]] = 2 \<and>
        list_all (\<lambda>row. length row = 2) [[4, 0], [0, 9 :: real]] \<and>
        0 \<le> spec_variance [1 / 2, 1 / 2] [[4, 0], [0, 9]]"
    using w(1) by (simp add: wv example_model_def v)
  from T h3 have m: "np_dot (candidate half_draws 2 0) (meanReturn example_model) =
        Fin (spec_return [1 / 2, 1 / 2] [3, 5]) \<and>
      fsqrt (np_dot (candidate half_draws 2 0)
         (np_dot_mv (covariance example_model) (candidate half_draws 2 0))) =
        Fin (spec_risk [1 / 2, 1 / 2] [[4, 0], [0, 9]])"
    by blast
  from T h1 have s: "fst (random_sampler half_draws example_model 2) ! 0 =
        np_dot (candidate half_draws 2 0) (meanReturn example_model) \<and>
      snd (random_sampler half_draws example_model 2) ! 0 =
        fsqrt (np_dot (candidate half_draws 2 0)
          (np_dot_mv (covariance example_model) (candidate half_draws 2 0)))"
    by blast
  from w(1) have c: "candidate half_draws 2 0 = [Fin (1 / 2), Fin (1 / 2)]"
    by (simp add: wv)
  from w(3) have su: "sum_list [1 / 2, 1 / 2 :: real] = 1"
    by (simp add: wv)
  from m s have "fst (random_sampler half_draws example_model 2) ! 0 = Fin 4 \<and>
      snd (random_sampler half_draws example_model 2) ! 0 = Fin (sqrt (13 / 4))"
    by (simp only: r spec_risk_def v)
  with c su show ?thesis by blast
qed

section \<open>Redenominated prices\<close>

text \<open>Rounding to float64 leaves a number of 53 binary digits within the range as it
  is, and gives an infinity from \<open>2 ^ 1024\<close> on.\<close>

lemma round_even_of_int: "round_even (of_int n) = n"
  by (simp add: round_even_def)


lemma binade_le:
  assumes x: "x = of_int m * 2 powr of_int k" and m: "\<bar>m\<bar> < 2 ^ 53" and k: "- 1074 \<le> k"
    and nz: "x \<noteq> 0"
  shows "binade x \<le> k + 52"
proof -
  from nz x have m0: "m \<noteq> 0" by auto
  then have mpos: "0 < \<bar>real_of_int m\<bar>" by simp
  have ax: "\<bar>x\<bar> = \<bar>real_of_int m\<bar> * 2 powr of_int k"
    by (simp add: x abs_mult)
  have "\<bar>real_of_int m\<bar> < 2 ^ 53"
    using m by (metis of_int_abs of_int_less_numeral_power_cancel_iff)
  then have "\<bar>x\<bar> < 2 ^ 53 * 2 powr of_int k"
    unfolding ax by (simp)
  also have "\<dots> = 2 powr (of_int (k + 53))"
    by (simp add: powr_add powr_realpow [symmetric])
  finally have lt: "\<bar>x\<bar> < 2 powr (of_int (k + 53))" .
  have xpos: "0 < \<bar>x\<bar>" using nz by simp
  have "log 2 \<bar>x\<bar> < of_int (k + 53)"
    using lt xpos by (simp add: log_less_iff)
  then have "\<lfloor>log 2 \<bar>x\<bar>\<rfloor> < k + 53"
    by (simp add: floor_less_iff)
  with k show ?thesis by (simp add: binade_def)
qed

lemma float64_exact:
  assumes x: "x = of_int m * 2 powr of_int k" and m: "\<bar>m\<bar> < 2 ^ 53" and k: "- 1074 \<le> k"
    and r: "\<bar>x\<bar> < 2 ^ 1024"
  shows "float64 x = Fin x"
proof (cases "x = 0")
  case True
  then show ?thesis by (simp add: float64_def)
next
  case False
  from binade_le [OF x m k False] have e: "0 \<le> k + 52 - binade x" by simp
  define j where "j = nat (k + 52 - binade x)"
  have kj: "real_of_int k = of_int (binade x) - 52 + real j"
    using e by (simp add: j_def)
  define u where "u = ulp x"
  have up: "0 < u" by (simp add: u_def ulp_def)
  have pk: "(2::real) powr of_int k = u * 2 ^ j"
    unfolding kj u_def ulp_def by (simp add: powr_add powr_realpow)
  have xe: "x = of_int m * (u * 2 ^ j)"
    using x by (simp only: pk)
  then have "x / u = of_int m * 2 ^ j" using up by simp
  then have q: "x / u = of_int (m * 2 ^ j)" by simp
  have "of_int (round_even (x / u)) * u = x"
    unfolding q round_even_of_int using xe by simp
  then have "of_int (round_even (x / ulp x)) * ulp x = x" by (simp only: u_def)
  with r False show ?thesis by (simp add: float64_def Let_def)
qed




lemma large_factor_float64: "float64 large_factor = Fin large_factor"
proof -
  have x: "(2::real) ^ 1020 = of_int 1 * 2 powr of_int 1020" by simp
  have m: "\<bar>1::int\<bar> < 2 ^ 53" by simp
  have k: "- 1074 \<le> (1020::int)" by simp
  have lt: "(2::real) ^ 1020 < 2 ^ 1024" by (rule power_strict_increasing) simp_all
  have nn: "(0::real) \<le> 2 ^ 1020" by (rule zero_le_power) simp
  have r: "\<bar>(2::real) ^ 1020\<bar> < 2 ^ 1024"
    unfolding abs_of_nonneg [OF nn] by (rule lt)
  show ?thesis
    unfolding large_factor_def by (rule float64_exact [OF x m k r])
qed














text \<open>The table of three closes and its return model.\<close>

lemma example_prices_returns:
  "dropna (pct_change NoFill (rows example_prices)) =
     [[Fin 1, Fin 0], [Fin (1 / 2), Fin (- 1 / 2)]]"
proof -
  have "pct_change NoFill (rows example_prices) =
          [[NaN, NaN], [Fin 1, Fin 0], [Fin (1 / 2), Fin (- 1 / 2)]]"
    by (simp add: example_prices_def pct_change_def fill_def pct_row_def pct_def fsub_def)
  then show ?thesis by (simp add: dropna_def)
qed

lemma example_prices_model:
  "build_return_model NoFill example_prices =
     \<lparr>meanReturn = [Fin 189, Fin (- 63)],
      covariance = [[Fin (63 / 2), Fin (63 / 2)], [Fin (63 / 2), Fin (63 / 2)]]\<rparr>"
proof -
  have s: "shape1 example_prices = 2" by (simp add: shape1_def example_prices_def)
  have two: "[0..<2] = [0, Suc 0]" by (simp add: numeral_2_eq_2)
  show ?thesis
    unfolding build_return_model_def example_prices_returns s Let_def
    by (simp add: two df_mean_def df_cov_def column_def col_mean_def col_cov_def np_sum_def fsub_def)
qed













section \<open>Short price histories\<close>

lemma fmul_zero_left: "fmul (Fin 0) b = Fin 0 \<or> fmul (Fin 0) b = NaN"
  by (cases b) simp_all

lemma fmul_NaN_left: "fmul NaN b = NaN"
  by (cases b) simp_all

lemma fadd_zero_right: "fadd a (Fin 0) = a"
  by (cases a) simp_all

lemma fdiv_by_zero:
  assumes "a = Fin 0 \<or> a = NaN"
  shows "fdiv a (Fin 0) = NaN"
  using assms by auto

lemma centered_single: "fsub x (col_mean [x]) = Fin 0 \<or> fsub x (col_mean [x]) = NaN"
  by (cases x) (simp_all add: col_mean_def np_sum_def fsub_def)

lemma col_cov_short:
  assumes "length xs < 2"
  shows "col_cov xs ys = NaN"
proof (cases xs)
  case Nil
  then show ?thesis by (simp add: col_cov_def np_sum_def)
next
  case (Cons x xs')
  with assms have xs: "xs = [x]" by simp
  show ?thesis
  proof (cases ys)
    case Nil
    with xs show ?thesis by (simp add: col_cov_def np_sum_def)
  next
    case (Cons y ys')
    let ?v = "fmul (fsub x (col_mean [x])) (fsub y (col_mean ys))"
    have "?v = Fin 0 \<or> ?v = NaN"
      using centered_single [of x] fmul_zero_left [of "fsub y (col_mean ys)"]
      by (auto simp: fmul_NaN_left)
    then have "fdiv (fadd ?v (Fin 0)) (Fin 0) = NaN"
      unfolding fadd_zero_right by (rule fdiv_by_zero)
    then show ?thesis
      using xs Cons by (simp add: col_cov_def np_sum_def)
  qed
qed

lemma df_cov_short:
  assumes "length rs < 2"
  shows "df_cov n rs = replicate n (replicate n NaN)"
proof -
  have "col_cov (column j rs) (column k rs) = NaN" for j k
    using assms by (intro col_cov_short) (simp add: column_def)
  then show ?thesis
    by (simp add: df_cov_def map_replicate_const)
qed

lemma example_frame_returns:
  "dropna (pct_change NoFill (rows example_frame)) = [[Fin (1 / 10)]]"
proof -
  have "pct_change NoFill (rows example_frame) = [[NaN], [Fin (1 / 10)]]"
    by (simp add: example_frame_def pct_change_def fill_def pct_row_def pct_def fsub_def)
  then show ?thesis by (simp add: dropna_def)
qed

lemma example_frame_model:
  "build_return_model NoFill example_frame =
     \<lparr>meanReturn = [Fin (126 / 5)], covariance = [[NaN]]\<rparr>"
proof -
  have s: "shape1 example_frame = 1" by (simp add: shape1_def example_frame_def)
  show ?thesis
    unfolding build_return_model_def example_frame_returns s Let_def
    by (simp add: df_mean_def df_cov_def column_def col_mean_def col_cov_def np_sum_def fsub_def)
qed

text \<open>
  C6, as the claim states it, fails: two closes of one asset leave a single row of
  returns, and the builder returns a model whose covariance is \<^verbatim>\<open>nan\<close>; the request goes
  on to the solver and returns a table of weights.
\<close>

theorem short_history_counterexample:
  "dropna (pct_change NoFill (rows example_frame)) = [[Fin (1 / 10)]] \<and>
   build_return_model NoFill example_frame =
     \<lparr>meanReturn = [Fin (126 / 5)], covariance = [[NaN]]\<rparr> \<and>
   weights_df (fst (optimize_portfolio example_env ''A'' default_start_date)) = [(''A'', ''pct'')]"
proof -
  obtain r where r: "compute example_env [''A''] example_frame = Inr r"
      "weights_df r = [(''A'', ''pct'')]"
    using example_compute by blast
  then have "weights_df (fst (optimize_portfolio example_env ''A'' default_start_date)) =
      [(''A'', ''pct'')]"
    by (simp add: optimize_portfolio_def example_body)
  then show ?thesis
    by (simp only: example_frame_returns example_frame_model simp_thms)
qed

text \<open>
  C6, amended.  When fewer than two rows of returns remain, the builder raises nothing:
  it returns a model whose covariance matrix is \<^verbatim>\<open>nan\<close> in every entry, and that model
  is given to the solver, whose vector the request puts in its table.
\<close>

theorem short_history_gives_nan_covariance:
  assumes "length (dropna (pct_change (pct_fill e) (rows data))) < 2"
  shows "covariance (build_return_model (pct_fill e) data) =
           replicate (shape1 data) (replicate (shape1 data) NaN) \<and>
         (\<forall>sol. minimize e (sharpe_problem (build_return_model (pct_fill e) data) (length tickers)) =
                  Inr sol \<and> length (sol_x sol) = length tickers \<longrightarrow>
                (\<exists>r. compute e tickers data = Inr r \<and>
                     weights_df r = zip tickers (map (fmt_pct e) (sol_x sol))))"
proof (intro conjI allI impI)
  show "covariance (build_return_model (pct_fill e) data) =
           replicate (shape1 data) (replicate (shape1 data) NaN)"
    using assms by (simp add: build_return_model_def Let_def df_cov_short)
next
  fix sol
  assume "minimize e (sharpe_problem (build_return_model (pct_fill e) data) (length tickers)) =
                  Inr sol \<and> length (sol_x sol) = length tickers"
  then show "\<exists>r. compute e tickers data = Inr r \<and>
                     weights_df r = zip tickers (map (fmt_pct e) (sol_x sol))"
    using compute_returns by blast
qed

theorem short_history_gives_nan_covariance_witness:
  "covariance (build_return_model NoFill example_frame) = [[NaN]] \<and>
   (\<exists>r. compute example_env [''A''] example_frame = Inr r \<and> weights_df r = [(''A'', ''pct'')])"
proof -
  have f: "pct_fill example_env = NoFill" by (simp add: example_env_def)
  have h: "length (dropna (pct_change (pct_fill example_env) (rows example_frame))) < 2"
    by (simp add: f example_frame_returns)
  have m: "minimize example_env
             (sharpe_problem (build_return_model (pct_fill example_env) example_frame) (length [''A''])) =
           Inr \<lparr>sol_x = [Fin 1], sol_success = False, sol_message = ''Iteration limit reached''\<rparr> \<and>
           length (sol_x \<lparr>sol_x = [Fin 1], sol_success = False, sol_message = ''Iteration limit reached''\<rparr>) = length [''A'']"
    by (simp add: example_env_def example_solver_def sharpe_problem_def)
  note T = short_history_gives_nan_covariance [OF h, of "[''A'']"]
  from T have c: "covariance (build_return_model (pct_fill example_env) example_frame) =
           replicate (shape1 example_frame) (replicate (shape1 example_frame) NaN)"
    by blast
  have s: "shape1 example_frame = 1" by (simp add: shape1_def example_frame_def)
  from c have w1: "covariance (build_return_model NoFill example_frame) = [[NaN]]"
    by (simp add: f s)
  from T m have "\<exists>r. compute example_env [''A''] example_frame = Inr r \<and>
          weights_df r = zip [''A''] (map (fmt_pct example_env)
            (sol_x \<lparr>sol_x = [Fin 1], sol_success = False, sol_message = ''Iteration limit reached''\<rparr>))"
    by blast
  then have w2: "\<exists>r. compute example_env [''A''] example_frame = Inr r \<and> weights_df r = [(''A'', ''pct'')]"
    by (simp add: example_env_def)
  from w1 w2 show ?thesis by blast
qed

section \<open>The return model\<close>

lemma pct_row_by_index:
  assumes "length p = n" and "length r = n"
  shows "pct_row p r = map (\<lambda>j. pct (p ! j) (r ! j)) [0..<n]"
  using assms by (intro nth_equalityI) (simp_all add: pct_row_def)

lemma length_pct_rows: "length (pct_rows prev rs) = length rs"
  by (induction rs arbitrary: prev) simp_all

lemma pct_rows_nth:
  assumes "t < length rs"
  shows "pct_rows prev rs ! t = pct_row ((prev # rs) ! t) (rs ! t)"
  using assms
proof (induction rs arbitrary: prev t)
  case Nil
  then show ?case by simp
next
  case (Cons r rs)
  then show ?case by (cases t) simp_all
qed

lemma pct_rows_spec:
  assumes "list_all (\<lambda>r. length r = n) (r0 # rs)"
  shows "pct_rows r0 rs =
           map (\<lambda>t. map (\<lambda>j. spec_simple_return (r0 # rs) t j) [0..<n]) [1..<Suc (length rs)]"
proof (rule nth_equalityI)
  show "length (pct_rows r0 rs) =
        length (map (\<lambda>t. map (\<lambda>j. spec_simple_return (r0 # rs) t j) [0..<n]) [1..<Suc (length rs)])"
    by (simp only: length_pct_rows length_map length_upt diff_Suc_1)
next
  fix i assume "i < length (pct_rows r0 rs)"
  then have i: "i < length rs" by (simp add: length_pct_rows)
  have all: "\<forall>r \<in> set (r0 # rs). length r = n"
    using assms by (simp only: list_all_iff)
  have "(r0 # rs) ! i \<in> set (r0 # rs)"
    using i by (intro nth_mem) simp
  with all have l1: "length ((r0 # rs) ! i) = n" by blast
  have "rs ! i \<in> set (r0 # rs)"
    using i by simp
  with all have l2: "length (rs ! i) = n" by blast
  have "pct_rows r0 rs ! i = map (\<lambda>j. pct ((r0 # rs) ! i ! j) (rs ! i ! j)) [0..<n]"
    using i l1 l2 by (simp only: pct_rows_nth pct_row_by_index)
  also have "\<dots> = map (\<lambda>j. spec_simple_return (r0 # rs) (Suc i) j) [0..<n]"
    by (simp add: spec_simple_return_def pct_def)
  also have "\<dots> = map (\<lambda>t. map (\<lambda>j. spec_simple_return (r0 # rs) t j) [0..<n]) [1..<Suc (length rs)] ! i"
    using i by (simp del: upt_Suc)
  finally show "pct_rows r0 rs ! i =
      map (\<lambda>t. map (\<lambda>j. spec_simple_return (r0 # rs) t j) [0..<n]) [1..<Suc (length rs)] ! i" .
qed

lemma returns_spec:
  assumes "list_all (\<lambda>r. length r = n) P" and "fill fm P = P" and "0 < n"
  shows "dropna (pct_change fm P) = spec_returns n P"
proof (cases P)
  case Nil
  then show ?thesis using assms(2) by (simp add: pct_change_def dropna_def spec_returns_def)
next
  case (Cons r0 rs)
  have "length r0 = n" using assms(1) Cons by simp
  with assms(3) have first: "\<not> list_all (\<lambda>v. v \<noteq> NaN) (map (\<lambda>_. NaN) r0)"
    by (cases r0) simp_all
  have "pct_change fm P = map (\<lambda>_. NaN) r0 # pct_rows r0 rs"
    using assms(2) Cons by (simp add: pct_change_def)
  then have "dropna (pct_change fm P) = filter (\<lambda>r. list_all (\<lambda>v. v \<noteq> NaN) r) (pct_rows r0 rs)"
    using first by (simp add: dropna_def)
  also have "\<dots> = spec_returns n P"
    using assms(1) Cons by (simp only: pct_rows_spec spec_returns_def list.size) simp
  finally show ?thesis .
qed

lemma pct_of_prices:
  assumes "is_price p" and "is_price x" and "pct p x \<noteq> NaN"
  shows "\<exists>y. pct p x = Fin y"
  using assms by (cases p; cases x) (simp_all add: is_price_def pct_def fsub_def split: if_splits)

lemma spec_returns_rows:
  assumes rect: "list_all (\<lambda>r. length r = n) P" and prices: "list_all (list_all is_price) P"
    and r: "r \<in> set (spec_returns n P)"
  shows "length r = n \<and> (\<forall>v \<in> set r. \<exists>x. v = Fin x)"
proof -
  from r obtain t where t: "1 \<le> t" "t < length P"
      and rt: "r = map (\<lambda>j. spec_simple_return P t j) [0..<n]"
      and nn: "\<forall>v \<in> set r. v \<noteq> NaN"
    by (auto simp: spec_returns_def list_all_iff)
  have cell: "is_price (P ! s ! j)" if "s < length P" "j < n" for s j
  proof -
    from that(1) have m: "P ! s \<in> set P" by simp
    with rect have "length (P ! s) = n" by (simp add: list_all_iff)
    with that(2) have "P ! s ! j \<in> set (P ! s)" by simp
    moreover from m prices have "\<forall>v \<in> set (P ! s). is_price v" by (simp add: list_all_iff)
    ultimately show ?thesis by blast
  qed
  have "\<exists>x. v = Fin x" if "v \<in> set r" for v
  proof -
    from that rt obtain j where j: "j < n" "v = spec_simple_return P t j" by auto
    then have v: "v = pct (P ! (t - 1) ! j) (P ! t ! j)"
      by (simp add: spec_simple_return_def pct_def)
    have "is_price (P ! (t - 1) ! j)" using t j(1) by (intro cell) simp_all
    moreover have "is_price (P ! t ! j)" using t j(1) by (intro cell) simp_all
    moreover have "pct (P ! (t - 1) ! j) (P ! t ! j) \<noteq> NaN" using nn that v by simp
    ultimately show ?thesis unfolding v by (rule pct_of_prices)
  qed
  then show ?thesis using rt by simp
qed

lemma column_Fin:
  assumes "\<forall>r \<in> set R. length r = n \<and> (\<forall>v \<in> set r. \<exists>x. v = Fin x)" and "j < n"
  shows "column j R = map Fin (map (\<lambda>r. fin_value (r ! j)) R)"
proof -
  have "r ! j = Fin (fin_value (r ! j))" if "r \<in> set R" for r
  proof -
    from that assms have "r ! j \<in> set r" by simp
    with that assms(1) obtain x where "r ! j = Fin x" by blast
    then show ?thesis by simp
  qed
  then show ?thesis by (simp add: column_def)
qed

lemma sum_list_rows:
  fixes f :: "'a \<Rightarrow> real"
  shows "sum_list (map f R) = (\<Sum>t<length R. f (R ! t))"
proof -
  have "sum_list (map f R) = (\<Sum>t = 0..<length (map f R). map f R ! t)"
    by (rule sum_list_sum_nth)
  also have "\<dots> = (\<Sum>t = 0..<length R. f (R ! t))"
    by (intro sum.cong) simp_all
  finally show ?thesis by (simp add: lessThan_atLeast0)
qed

lemma col_mean_Fin:
  "col_mean (map Fin xs) = (if xs = [] then NaN else Fin (sum_list xs / real (length xs)))"
  by (simp add: col_mean_def np_sum_Fin)

lemma col_mean_spec:
  assumes "\<forall>r \<in> set R. length r = n \<and> (\<forall>v \<in> set r. \<exists>x. v = Fin x)" and "j < n"
  shows "col_mean (column j R) = spec_mean R j"
  unfolding column_Fin [OF assms] col_mean_Fin
  by (simp add: spec_mean_def sum_list_rows)

lemma map2_centered:
  "map2 (\<lambda>x y. fmul (fsub x (Fin a)) (fsub y (Fin b))) (map Fin xs) (map Fin ys) =
   map Fin (map2 (\<lambda>x y. (x - a) * (y - b)) xs ys)"
proof (induction xs arbitrary: ys)
  case Nil
  then show ?case by simp
next
  case (Cons x xs)
  then show ?case by (cases ys) (simp_all add: fsub_def)
qed

lemma col_cov_Fin:
  assumes "length xs = length ys" and "2 \<le> length xs"
  shows "col_cov (map Fin xs) (map Fin ys) =
           Fin ((\<Sum>t<length xs. (xs ! t - sum_list xs / real (length xs)) *
                                 (ys ! t - sum_list ys / real (length ys)))
                 / (real (length xs) - 1))"
proof -
  have ne: "xs \<noteq> []" "ys \<noteq> []" using assms by auto
  have d: "real (length xs - 1) = real (length xs) - 1" "real (length xs) - 1 \<noteq> 0"
    using assms(2) by (simp_all add: of_nat_diff)
  have "col_cov (map Fin xs) (map Fin ys) =
          fdiv (Fin (sum_list (map2 (\<lambda>x y. (x - sum_list xs / real (length xs)) *
                                            (y - sum_list ys / real (length ys))) xs ys)))
               (Fin (real (length xs - 1)))"
    unfolding col_cov_def col_mean_Fin using ne
    by (simp only: if_False map2_centered np_sum_Fin length_map)
  then show ?thesis
    using assms(1) d by (simp add: sum_list_map2_nth)
qed

lemma col_cov_spec:
  assumes "\<forall>r \<in> set R. length r = n \<and> (\<forall>v \<in> set r. \<exists>x. v = Fin x)" and "j < n" and "k < n"
  shows "col_cov (column j R) (column k R) = spec_cov R j k"
proof (cases "length R < 2")
  case True
  then have "col_cov (column j R) (column k R) = NaN"
    by (intro col_cov_short) (simp add: column_def)
  with True show ?thesis by (simp add: spec_cov_def)
next
  case False
  then have two: "2 \<le> length (map (\<lambda>r. fin_value (r ! j)) R)" by simp
  have len: "length (map (\<lambda>r. fin_value (r ! j)) R) = length (map (\<lambda>r. fin_value (r ! k)) R)" by simp
  show ?thesis
    unfolding column_Fin [OF assms(1,2)] column_Fin [OF assms(1,3)] col_cov_Fin [OF len two]
    using False by (simp add: spec_cov_def sum_list_rows)
qed

lemma fmul_commute: "fmul a b = fmul b a"
  by (cases a; cases b) (simp_all add:)

lemma model_of_returns:
  assumes "\<forall>r \<in> set R. length r = n \<and> (\<forall>v \<in> set r. \<exists>x. v = Fin x)"
  shows "map (\<lambda>m. fmul m (Fin 252)) (df_mean n R) = map (\<lambda>j. fmul (Fin 252) (spec_mean R j)) [0..<n]"
    and "map (map (\<lambda>c. fmul c (Fin 252))) (df_cov n R) =
         map (\<lambda>j. map (\<lambda>k. fmul (Fin 252) (spec_cov R j k)) [0..<n]) [0..<n]"
proof -
  have m: "fmul (col_mean (column j R)) (Fin 252) = fmul (Fin 252) (spec_mean R j)" if "j < n" for j
    using col_mean_spec [OF assms that] by (simp only: fmul_commute)
  have c: "fmul (col_cov (column j R) (column k R)) (Fin 252) = fmul (Fin 252) (spec_cov R j k)"
    if "j < n" "k < n" for j k
    using col_cov_spec [OF assms that] by (simp only: fmul_commute)
  show "map (\<lambda>m. fmul m (Fin 252)) (df_mean n R) = map (\<lambda>j. fmul (Fin 252) (spec_mean R j)) [0..<n]"
    by (simp add: df_mean_def m)
  show "map (map (\<lambda>c. fmul c (Fin 252))) (df_cov n R) =
         map (\<lambda>j. map (\<lambda>k. fmul (Fin 252) (spec_cov R j k)) [0..<n]) [0..<n]"
    by (simp add: df_cov_def c)
qed

lemma pad_row_keeps:
  assumes "length prev = n" and "length r = n" and "list_all is_price prev" and "list_all is_price r"
  shows "length (pad_row prev r) = n \<and> list_all is_price (pad_row prev r)"
  using assms by (auto simp: pad_row_def list_all_iff set_zip)

lemma pad_rows_keeps:
  assumes "length prev = n" and "list_all is_price prev"
    and "list_all (\<lambda>r. length r = n) rs" and "list_all (list_all is_price) rs"
  shows "list_all (\<lambda>r. length r = n) (pad_rows prev rs) \<and>
         list_all (list_all is_price) (pad_rows prev rs)"
  using assms
proof (induction rs arbitrary: prev)
  case Nil
  then show ?case by simp
next
  case (Cons r rs)
  have k: "length (pad_row prev r) = n \<and> list_all is_price (pad_row prev r)"
    using Cons.prems by (intro pad_row_keeps) simp_all
  with Cons.prems have "list_all (\<lambda>r. length r = n) (pad_rows (pad_row prev r) rs) \<and>
         list_all (list_all is_price) (pad_rows (pad_row prev r) rs)"
    by (intro Cons.IH) simp_all
  with k show ?case by (simp add: Let_def)
qed

lemma fill_keeps:
  assumes "list_all (\<lambda>r. length r = n) P" and "list_all (list_all is_price) P"
  shows "list_all (\<lambda>r. length r = n) (fill fm P) \<and> list_all (list_all is_price) (fill fm P)"
proof (cases fm)
  case NoFill
  with assms show ?thesis by (simp add: fill_def)
next
  case Pad
  show ?thesis
  proof (cases P)
    case Nil
    with Pad show ?thesis by (simp add: fill_def ffill_def)
  next
    case (Cons r rs)
    with assms have "list_all (\<lambda>r. length r = n) (pad_rows r rs) \<and>
         list_all (list_all is_price) (pad_rows r rs)"
      by (intro pad_rows_keeps) simp_all
    with assms Cons Pad show ?thesis by (simp add: fill_def ffill_def)
  qed
qed

lemma pct_change_fill: "pct_change fm P = pct_change NoFill (fill fm P)"
  by (simp add: pct_change_def fill_def)

lemma return_model_of_filled:
  assumes "rectangular data" and "quoted data"
  shows "build_return_model fm data = spec_return_model (shape1 data) (fill fm (rows data))"
proof (cases "shape1 data = 0")
  case True
  then show ?thesis by (simp add: build_return_model_def spec_return_model_def df_mean_def df_cov_def)
next
  case False
  let ?n = "shape1 data"
  let ?P = "fill fm (rows data)"
  have "list_all (\<lambda>r. length r = ?n) (rows data)"
    using assms(1) by (simp add: rectangular_def shape1_def)
  moreover have "list_all (list_all is_price) (rows data)"
    using assms(2) by (simp add: quoted_def)
  ultimately have keep: "list_all (\<lambda>r. length r = ?n) ?P \<and> list_all (list_all is_price) ?P"
    by (rule fill_keeps)
  from False have pos: "0 < ?n" by simp
  have "fill NoFill ?P = ?P" by (simp add: fill_def)
  with keep pos have "dropna (pct_change NoFill ?P) = spec_returns ?n ?P"
    by (intro returns_spec) simp_all
  then have r: "dropna (pct_change fm (rows data)) = spec_returns ?n ?P"
    by (simp only: pct_change_fill [of fm])
  have ok: "\<forall>r \<in> set (spec_returns ?n ?P). length r = ?n \<and> (\<forall>v \<in> set r. \<exists>x. v = Fin x)"
    using keep spec_returns_rows by blast
  show ?thesis
    unfolding build_return_model_def spec_return_model_def r Let_def
    by (simp only: model_of_returns [OF ok])
qed

text \<open>
  Where the two fills part: a missing close between two quotes.  Without a fill both
  returns next to the gap are missing and no row remains; with the forward fill the
  gap repeats the close before it and two rows remain.
\<close>

lemma gap_prices_returns:
  "dropna (pct_change NoFill (rows gap_prices)) = [] \<and>
   dropna (pct_change Pad (rows gap_prices)) = [[Fin 0], [Fin 1]]"
proof -
  have "pct_change NoFill (rows gap_prices) = [[NaN], [NaN], [NaN]]"
    by (simp add: gap_prices_def pct_change_def fill_def pct_row_def pct_def fsub_def)
  moreover have "pct_change Pad (rows gap_prices) = [[NaN], [Fin 0], [Fin 1]]"
    by (simp add: gap_prices_def pct_change_def fill_def ffill_def pad_row_def pct_row_def pct_def
        fsub_def)
  ultimately show ?thesis by (simp add: dropna_def)
qed

lemma gap_prices_spec:
  "spec_return_model 1 (rows gap_prices) = \<lparr>meanReturn = [NaN], covariance = [[NaN]]\<rparr>"
proof -
  have one: "[0..<1] = [0]" by simp
  have two: "[1..<length (rows gap_prices)] = [1, 2]"
    by (simp add: gap_prices_def upt_rec)
  have "spec_returns 1 (rows gap_prices) = []"
    unfolding spec_returns_def two one
    by (simp add: spec_simple_return_def gap_prices_def fsub_def)
  then show ?thesis
    by (simp add: spec_return_model_def spec_mean_def spec_cov_def)
qed

text \<open>
  C2, as the claim states it, fails under the fill that \<^verbatim>\<open>pct_change\<close> applies by default
  in pandas up to 2.x: for a close missing between two quotes the claim's returns
  leave no row, hence an undefined mean and covariance, while the builder computes
  both from the returns 0 and 1 of the filled prices.
\<close>

theorem forward_fill_counterexample:
  "build_return_model Pad gap_prices = \<lparr>meanReturn = [Fin 126], covariance = [[Fin 126]]\<rparr> \<and>
   spec_return_model 1 (rows gap_prices) = \<lparr>meanReturn = [NaN], covariance = [[NaN]]\<rparr>"
proof -
  have r: "dropna (pct_change Pad (rows gap_prices)) = [[Fin 0], [Fin 1]]"
    using gap_prices_returns by (rule conjunct2)
  have s: "shape1 gap_prices = 1" by (simp add: shape1_def gap_prices_def)
  have one: "[0..<1] = [0]" by simp
  have "build_return_model Pad gap_prices = \<lparr>meanReturn = [Fin 126], covariance = [[Fin 126]]\<rparr>"
    unfolding build_return_model_def r s Let_def
    by (simp add: one df_mean_def df_cov_def column_def col_mean_def col_cov_def np_sum_def
        fsub_def)
  then show ?thesis by (simp only: gap_prices_spec simp_thms)
qed

text \<open>
  C2, amended.  On a rectangular table of quoted prices the builder returns the model
  of the specification for the prices as \<^verbatim>\<open>pct_change\<close> takes them: the simple returns of
  all rows but the first, the rows with a missing value dropped, and 252 times their
  mean and their sample covariance.  Where pandas does not fill, these are the prices
  of the table; under the forward fill they are the filled prices, which are the
  prices of the table when no close is missing after a column's first quote.
\<close>

theorem return_model_as_specified:
  assumes "rectangular data" and "quoted data"
  shows "build_return_model NoFill data = spec_return_model (shape1 data) (rows data) \<and>
         build_return_model Pad data = spec_return_model (shape1 data) (ffill (rows data)) \<and>
         (ffill (rows data) = rows data \<longrightarrow>
            build_return_model Pad data = spec_return_model (shape1 data) (rows data))"
  using return_model_of_filled [OF assms, of NoFill] return_model_of_filled [OF assms, of Pad]
  by (simp add: fill_def)

theorem return_model_as_specified_witness:
  "build_return_model NoFill example_prices = spec_return_model 2 (rows example_prices) \<and>
   build_return_model Pad example_prices = spec_return_model 2 (rows example_prices) \<and>
   spec_return_model 2 (rows example_prices) =
     \<lparr>meanReturn = [Fin 189, Fin (- 63)],
      covariance = [[Fin (63 / 2), Fin (63 / 2)], [Fin (63 / 2), Fin (63 / 2)]]\<rparr>"
proof -
  have h1: "rectangular example_prices"
    by (simp add: rectangular_def example_prices_def)
  have h2: "quoted example_prices"
    by (simp add: quoted_def example_prices_def is_price_def)
  have h3: "ffill (rows example_prices) = rows example_prices"
    by (simp add: ffill_def example_prices_def pad_row_def)
  have s: "shape1 example_prices = 2"
    by (simp add: shape1_def example_prices_def)
  note T = return_model_as_specified [OF h1 h2, unfolded s]
  from T have w1: "build_return_model NoFill example_prices = spec_return_model 2 (rows example_prices)"
    by (rule conjunct1)
  from T h3 have w2: "build_return_model Pad example_prices = spec_return_model 2 (rows example_prices)"
    by blast
  from w1 have w3: "spec_return_model 2 (rows example_prices) =
     \<lparr>meanReturn = [Fin 189, Fin (- 63)],
      covariance = [[Fin (63 / 2), Fin (63 / 2)], [Fin (63 / 2), Fin (63 / 2)]]\<rparr>"
    by (simp only: example_prices_model)
  from w1 w2 w3 show ?thesis by blast
qed

end
